theory Spec2Isabelle
  imports Main "HOL-Library.Word"
begin

unbundle bit_operations_syntax

section \<open>The D-Bus service of hcid (hcid/dbus.c)\<close>

text \<open>
  A shallow embedding of the parts of \<^verbatim>\<open>hcid/dbus.c\<close> that route bus calls to
  handlers, answer the scan-mode and remote-name requests, resolve PIN requests and keep
  the registry of controllers. Each definition carries the name of the C function it
  embeds. What the file calls in the bus library, in the HCI library and in the kernel is
  outside the file: the answers of those calls are read from an environment \<open>env\<close>, and
  every call that matters to a property is written to the \<open>trace\<close> of the state.
\<close>

subsection \<open>Macros of the headers\<close>

text \<open>
  The file includes \<^verbatim>\<open>dbus.h\<close> and \<^verbatim>\<open>bluetooth/hci.h\<close>, whose macros give the
  error codes, the path identifiers, the scan modes and the interface strings. The headers
  are not part of the source at hand, so the value of every macro the embedded functions
  use is a field of the record \<open>macros\<close>, and every definition below takes the record
  as its first argument \<open>K\<close>. The fifty status codes of the controller and the method
  names and signatures of the service tables are read by the name of their macro, through
  \<open>HCI_STATUS K\<close> and \<open>SERVICE K\<close>.
\<close>

record macros =
  BLUEZ_EBT_OFFSET :: "32 word"
  BLUEZ_EDBUS_OFFSET :: "32 word"
  BLUEZ_ESYSTEM_OFFSET :: "32 word"
  BLUEZ_EDBUS_UNKNOWN_METHOD :: "32 word"
  BLUEZ_EDBUS_WRONG_SIGNATURE :: "32 word"
  BLUEZ_EDBUS_WRONG_PARAM :: "32 word"
  BLUEZ_EDBUS_RECORD_NOT_FOUND :: "32 word"
  BLUEZ_EDBUS_NO_MEM :: "32 word"
  BLUEZ_EDBUS_CONN_NOT_FOUND :: "32 word"
  BLUEZ_EDBUS_UNKNOWN_PATH :: "32 word"
  BLUEZ_EDBUS_NOT_IMPLEMENTED :: "32 word"
  BLUEZ_ESYSTEM_ENODEV :: "32 word"
  HCI_STATUS :: "string \<Rightarrow> 32 word"
  MANAGER_ROOT_ID :: "16 word"
  DEVICE_ROOT_ID :: "16 word"
  DEVICE_PATH_ID :: "16 word"
  INVALID_DEV_ID :: "16 word"
  MODE_OFF :: "8 word"
  MODE_CONNECTABLE :: "8 word"
  MODE_DISCOVERABLE :: "8 word"
  SCAN_DISABLED :: "8 word"
  SCAN_INQUIRY :: "8 word"
  SCAN_PAGE :: "8 word"
  BASE_PATH :: string
  BASE_INTERFACE :: string
  DEVICE_PATH :: string
  DEVICE_INTERFACE :: string
  MANAGER_PATH :: string
  MANAGER_INTERFACE :: string
  ERROR_INTERFACE :: string
  BLUEZ_MGR_DEV_ADDED :: string
  BLUEZ_MGR_DEV_REMOVED :: string
  DEV_SIG_REMOTE_NAME :: string
  DEV_SIG_MODE_CHANGED :: string
  SERVICE :: "string \<Rightarrow> string"
  STORAGEDIR :: string
  PATH_MAX :: nat


subsection \<open>Messages of the bus\<close>

text \<open>
  A message of the bus library carries typed arguments. The object-path functions of the
  file are only ever handed method calls, which always name their member and may leave
  out their interface; the messages the file builds itself are returns, errors and
  signals. \<open>dbus_message_new_error\<close> takes the call it answers, the error name and the
  error text, and stores the text as the first string argument.
\<close>

datatype dbus_arg =
    DBUS_TYPE_STRING string
  | DBUS_TYPE_BYTE "8 word"
  | DBUS_TYPE_UINT32 "32 word"
  | DBUS_TYPE_BOOLEAN bool
  | DBUS_TYPE_ARRAY_BYTE "8 word list"

record method_call =
  call_serial :: nat
  call_destination :: string
  call_path :: string
  call_interface :: "string option"
  call_member :: string
  call_args :: "dbus_arg list"

datatype dbus_message =
    Method_call method_call
  | Method_return nat "dbus_arg list"
  | Error_message nat string "dbus_arg list"
  | Signal string string string "dbus_arg list"

datatype dbus_message_type =
    DBUS_MESSAGE_TYPE_METHOD_CALL
  | DBUS_MESSAGE_TYPE_METHOD_RETURN
  | DBUS_MESSAGE_TYPE_ERROR
  | DBUS_MESSAGE_TYPE_SIGNAL

fun dbus_message_get_type :: "dbus_message \<Rightarrow> dbus_message_type" where
  "dbus_message_get_type (Method_call c) = DBUS_MESSAGE_TYPE_METHOD_CALL"
| "dbus_message_get_type (Method_return r as) = DBUS_MESSAGE_TYPE_METHOD_RETURN"
| "dbus_message_get_type (Error_message r n as) = DBUS_MESSAGE_TYPE_ERROR"
| "dbus_message_get_type (Signal p i n as) = DBUS_MESSAGE_TYPE_SIGNAL"

fun message_args :: "dbus_message \<Rightarrow> dbus_arg list" where
  "message_args (Method_call c) = call_args c"
| "message_args (Method_return r as) = as"
| "message_args (Error_message r n as) = as"
| "message_args (Signal p i n as) = as"

fun error_name :: "dbus_message \<Rightarrow> string option" where
  "error_name (Error_message r n as) = Some n"
| "error_name m = None"

fun type_code :: "dbus_arg \<Rightarrow> string" where
  "type_code (DBUS_TYPE_STRING s) = ''s''"
| "type_code (DBUS_TYPE_BYTE b) = ''y''"
| "type_code (DBUS_TYPE_UINT32 u) = ''u''"
| "type_code (DBUS_TYPE_BOOLEAN b) = ''b''"
| "type_code (DBUS_TYPE_ARRAY_BYTE bs) = ''ay''"

definition dbus_message_get_signature :: "method_call \<Rightarrow> string" where
  "dbus_message_get_signature msg = concat (map type_code (call_args msg))"

definition dbus_message_new_method_return :: "method_call \<Rightarrow> dbus_message" where
  "dbus_message_new_method_return msg = Method_return (call_serial msg) []"

definition dbus_message_new_error :: "method_call \<Rightarrow> string \<Rightarrow> string \<Rightarrow> dbus_message" where
  "dbus_message_new_error reply_to name text =
     Error_message (call_serial reply_to) name [DBUS_TYPE_STRING text]"

definition dbus_message_new_signal :: "string \<Rightarrow> string \<Rightarrow> string \<Rightarrow> dbus_message" where
  "dbus_message_new_signal p iface name = Signal p iface name []"

fun dbus_message_append_args :: "dbus_message \<Rightarrow> dbus_arg list \<Rightarrow> dbus_message" where
  "dbus_message_append_args (Method_call c) xs = Method_call (c\<lparr>call_args := call_args c @ xs\<rparr>)"
| "dbus_message_append_args (Method_return r as) xs = Method_return r (as @ xs)"
| "dbus_message_append_args (Error_message r n as) xs = Error_message r n (as @ xs)"
| "dbus_message_append_args (Signal p i n as) xs = Signal p i n (as @ xs)"

subsection \<open>Controller commands and the environment\<close>

type_synonym bdaddr_t = "8 word list"

datatype ogf = OGF_LINK_CTL | OGF_HOST_CTL

datatype ocf =
    OCF_READ_SCAN_ENABLE
  | OCF_WRITE_SCAN_ENABLE
  | OCF_REMOTE_NAME_REQ
  | OCF_PIN_CODE_REPLY
  | OCF_PIN_CODE_NEG_REPLY

text \<open>
  The command parameters the embedded functions fill in: none, the scan-enable octet, the
  remote-name request (address and page-scan repetition mode, all else zeroed), a bare
  address, and the PIN reply (address, length octet and the bytes copied into \<open>pin_code\<close>;
  the C array holds 16 of them).
\<close>

datatype hci_param =
    No_param
  | Scan_enable_cp "8 word"
  | Remote_name_req_cp bdaddr_t "8 word"
  | Bdaddr_cp bdaddr_t
  | Pin_code_reply_cp bdaddr_t "8 word" "8 word list"

record hci_request =
  rq_ogf :: ogf
  rq_ocf :: ocf
  rq_cparam :: hci_param

text \<open>The response parameters a caller reads: the status octet and, for a scan-enable
  read, the mode octet.\<close>

record hci_rparam =
  rp_status :: "8 word"
  rp_enable :: "8 word"

text \<open>
  Every call out of the file that the properties speak about is recorded, in order, in
  the trace: the transport calls to the controller, the kernel queries, the reads of the
  name cache and what is handed to the bus connection.
\<close>

datatype vtable = Obj_dev_vtable | Obj_mgr_vtable

datatype effect =
    Hci_open_dev int
  | Hci_send_req int hci_request nat
  | Hci_send_cmd int ogf ocf hci_param
  | Hci_close_dev int
  | Hci_devinfo int
  | Hci_devid string
  | Hci_get_route
  | Textfile_get string string
  | Dbus_connection_send dbus_message
  | Dbus_connection_send_with_reply dbus_message nat
  | Dbus_connection_flush
  | Dbus_connection_register string vtable bool
  | Dbus_connection_unregister_object_path string

text \<open>The two kinds of block the embedded functions ask \<open>malloc\<close> for: the user
  data of an object path and the request handed to a pending call.\<close>

datatype allocation = Path_data_block | Pin_request_block

text \<open>
  The answers of the outside world. A system call that fails returns \<open>Inl errno\<close>, one
  that succeeds \<open>Inr\<close> of its result; \<open>hci_send_req\<close> is given its timeout in
  milliseconds. The boolean fields say whether an allocation or a call into the bus
  library succeeds; \<open>malloc\<close> answers for each kind of block whether it returns
  memory (otherwise it returns NULL). \<open>dbus_connection_get_object_path_data\<close> is the
  boolean that the library function of that name returns: by its contract it is FALSE
  only for want of memory, and the user data is read from the state. The last three
  fields are the indeterminate contents of a fresh \<open>malloc\<close> block and of an
  uninitialised local that \<open>dbus_message_get_args\<close> leaves untouched when the call has
  no such argument.
\<close>

record env =
  strerror :: "32 word \<Rightarrow> string"
  hci_open_dev :: "int \<Rightarrow> int + int"
  hci_send_req :: "int \<Rightarrow> hci_request \<Rightarrow> nat \<Rightarrow> int + hci_rparam"
  hci_devinfo :: "int \<Rightarrow> int + bdaddr_t"
  hci_devid :: "string \<Rightarrow> int"
  hci_get_route :: int
  ba2str :: "bdaddr_t \<Rightarrow> string"
  str2ba :: "string \<Rightarrow> bdaddr_t"
  batostr :: "bdaddr_t \<Rightarrow> string"
  baswap :: "bdaddr_t \<Rightarrow> bdaddr_t"
  textfile_get :: "string \<Rightarrow> string \<Rightarrow> string option"
  malloc :: "allocation \<Rightarrow> bool"
  dbus_bus_get :: bool
  dbus_bus_request_name :: bool
  dbus_connection_add_filter :: bool
  dbus_connection_register :: "string \<Rightarrow> bool"
  dbus_connection_unregister_object_path :: "string \<Rightarrow> bool"
  dbus_connection_get_object_path_data :: "string \<Rightarrow> bool"
  dbus_message_new :: bool
  dbus_connection_send :: "dbus_message \<Rightarrow> bool"
  dbus_connection_send_with_reply :: "dbus_message \<Rightarrow> bool"
  dbus_pending_call_set_notify :: bool
  fresh_path_data :: "32 word"
  uninitialised_uint8 :: "8 word"
  uninitialised_string :: string

subsection \<open>State of the daemon\<close>

record hci_dbus_data =
  dev_id :: "16 word"
  path_id :: "16 word"
  path_data :: "32 word"

text \<open>
  The two file-scope variables \<open>connection\<close> (here: whether it is non-NULL) and
  \<open>default_dev\<close>, the user data the bus library keeps for each registered object
  path, and the trace.
\<close>

record hcid =
  connection :: bool
  default_dev :: int
  object_paths :: "string \<rightharpoonup> hci_dbus_data"
  trace :: "effect list"

definition emit :: "effect \<Rightarrow> hcid \<Rightarrow> hcid" where
  "emit e s = s\<lparr>trace := trace s @ [e]\<rparr>"


subsection \<open>Error codes and failure replies\<close>

record bluez_error_t =
  code :: "32 word"
  str :: string

text \<open>
  The two tables, each without its closing \<open>{ 0, NULL }\<close>: the end of the list stands
  for it. The status macros of \<^verbatim>\<open>hci.h\<close> are read through \<open>HCI_STATUS K\<close>
  by their names.
\<close>

definition dbus_error_array :: "macros \<Rightarrow> bluez_error_t list" where
  "dbus_error_array K =
    [\<lparr>code = BLUEZ_EDBUS_UNKNOWN_METHOD K, str = ''Method not found''\<rparr>,
     \<lparr>code = BLUEZ_EDBUS_WRONG_SIGNATURE K, str = ''Wrong method signature''\<rparr>,
     \<lparr>code = BLUEZ_EDBUS_WRONG_PARAM K, str = ''Invalid parameters''\<rparr>,
     \<lparr>code = BLUEZ_EDBUS_RECORD_NOT_FOUND K, str = ''No record found''\<rparr>,
     \<lparr>code = BLUEZ_EDBUS_NO_MEM K, str = ''No memory''\<rparr>,
     \<lparr>code = BLUEZ_EDBUS_CONN_NOT_FOUND K, str = ''Connection not found''\<rparr>,
     \<lparr>code = BLUEZ_EDBUS_UNKNOWN_PATH K, str = ''Unknown D-BUS path''\<rparr>,
     \<lparr>code = BLUEZ_EDBUS_NOT_IMPLEMENTED K, str = ''Method not implemented''\<rparr>]"

definition hci_error_array :: "macros \<Rightarrow> bluez_error_t list" where
  "hci_error_array K =
    [
    \<lparr>code = HCI_STATUS K ''HCI_UNKNOWN_COMMAND'', str = ''Unknown HCI Command''\<rparr>,
     \<lparr>code = HCI_STATUS K ''HCI_NO_CONNECTION'', str = ''Unknown Connection Identifier''\<rparr>,
     \<lparr>code = HCI_STATUS K ''HCI_HARDWARE_FAILURE'', str = ''Hardware Failure''\<rparr>,
     \<lparr>code = HCI_STATUS K ''HCI_PAGE_TIMEOUT'', str = ''Page Timeout''\<rparr>,
     \<lparr>code = HCI_STATUS K ''HCI_AUTHENTICATION_FAILURE'', str = ''Authentication Failure''\<rparr>,
     \<lparr>code = HCI_STATUS K ''HCI_PIN_OR_KEY_MISSING'', str = ''PIN Missing''\<rparr>,
     \<lparr>code = HCI_STATUS K ''HCI_MEMORY_FULL'', str = ''Memory Capacity Exceeded''\<rparr>,
     \<lparr>code = HCI_STATUS K ''HCI_CONNECTION_TIMEOUT'', str = ''Connection Timeout''\<rparr>,
     \<lparr>code = HCI_STATUS K ''HCI_MAX_NUMBER_OF_CONNECTIONS'', str = ''Connection Limit Exceeded''\<rparr>,
     \<lparr>code = HCI_STATUS K ''HCI_MAX_NUMBER_OF_SCO_CONNECTIONS'', str = ''Synchronous Connection Limit To A Device Exceeded''\<rparr>,
     \<lparr>code = HCI_STATUS K ''HCI_ACL_CONNECTION_EXISTS'', str = ''ACL Connection Already Exists''\<rparr>,
     \<lparr>code = HCI_STATUS K ''HCI_COMMAND_DISALLOWED'', str = ''Command Disallowed''\<rparr>,
     \<lparr>code = HCI_STATUS K ''HCI_REJECTED_LIMITED_RESOURCES'', str = ''Connection Rejected due to Limited Resources''\<rparr>,
     \<lparr>code = HCI_STATUS K ''HCI_REJECTED_SECURITY'', str = ''Connection Rejected Due To Security Reasons''\<rparr>,
     \<lparr>code = HCI_STATUS K ''HCI_REJECTED_PERSONAL'', str = ''Connection Rejected due to Unacceptable BD_ADDR''\<rparr>,
     \<lparr>code = HCI_STATUS K ''HCI_HOST_TIMEOUT'', str = ''Connection Accept Timeout Exceeded''\<rparr>,
     \<lparr>code = HCI_STATUS K ''HCI_UNSUPPORTED_FEATURE'', str = ''Unsupported Feature or Parameter Value''\<rparr>,
     \<lparr>code = HCI_STATUS K ''HCI_INVALID_PARAMETERS'', str = ''Invalid HCI Command Parameters''\<rparr>,
     \<lparr>code = HCI_STATUS K ''HCI_OE_USER_ENDED_CONNECTION'', str = ''Remote User Terminated Connection''\<rparr>,
     \<lparr>code = HCI_STATUS K ''HCI_OE_LOW_RESOURCES'', str = ''Remote Device Terminated Connection due to Low Resources''\<rparr>,
     \<lparr>code = HCI_STATUS K ''HCI_OE_POWER_OFF'', str = ''Remote Device Terminated Connection due to Power Off''\<rparr>,
     \<lparr>code = HCI_STATUS K ''HCI_CONNECTION_TERMINATED'', str = ''Connection Terminated By Local Host''\<rparr>,
     \<lparr>code = HCI_STATUS K ''HCI_REPEATED_ATTEMPTS'', str = ''Repeated Attempts''\<rparr>,
     \<lparr>code = HCI_STATUS K ''HCI_PAIRING_NOT_ALLOWED'', str = ''Pairing Not Allowed''\<rparr>,
     \<lparr>code = HCI_STATUS K ''HCI_UNKNOWN_LMP_PDU'', str = ''Unknown LMP PDU''\<rparr>,
     \<lparr>code = HCI_STATUS K ''HCI_UNSUPPORTED_REMOTE_FEATURE'', str = ''Unsupported Remote Feature''\<rparr>,
     \<lparr>code = HCI_STATUS K ''HCI_SCO_OFFSET_REJECTED'', str = ''SCO Offset Rejected''\<rparr>,
     \<lparr>code = HCI_STATUS K ''HCI_SCO_INTERVAL_REJECTED'', str = ''SCO Interval Rejected''\<rparr>,
     \<lparr>code = HCI_STATUS K ''HCI_AIR_MODE_REJECTED'', str = ''SCO Air Mode Rejected''\<rparr>,
     \<lparr>code = HCI_STATUS K ''HCI_INVALID_LMP_PARAMETERS'', str = ''Invalid LMP Parameters''\<rparr>,
     \<lparr>code = HCI_STATUS K ''HCI_UNSPECIFIED_ERROR'', str = ''Unspecified Error''\<rparr>,
     \<lparr>code = HCI_STATUS K ''HCI_UNSUPPORTED_LMP_PARAMETER_VALUE'', str = ''Unsupported LMP Parameter Value''\<rparr>,
     \<lparr>code = HCI_STATUS K ''HCI_ROLE_CHANGE_NOT_ALLOWED'', str = ''Role Change Not Allowed''\<rparr>,
     \<lparr>code = HCI_STATUS K ''HCI_LMP_RESPONSE_TIMEOUT'', str = ''LMP Response Timeout''\<rparr>,
     \<lparr>code = HCI_STATUS K ''HCI_LMP_ERROR_TRANSACTION_COLLISION'', str = ''LMP Error Transaction Collision''\<rparr>,
     \<lparr>code = HCI_STATUS K ''HCI_LMP_PDU_NOT_ALLOWED'', str = ''LMP PDU Not Allowed''\<rparr>,
     \<lparr>code = HCI_STATUS K ''HCI_ENCRYPTION_MODE_NOT_ACCEPTED'', str = ''Encryption Mode Not Acceptable''\<rparr>,
     \<lparr>code = HCI_STATUS K ''HCI_UNIT_LINK_KEY_USED'', str = ''Link Key Can Not be Changed''\<rparr>,
     \<lparr>code = HCI_STATUS K ''HCI_QOS_NOT_SUPPORTED'', str = ''Requested QoS Not Supported''\<rparr>,
     \<lparr>code = HCI_STATUS K ''HCI_INSTANT_PASSED'', str = ''Instant Passed''\<rparr>,
     \<lparr>code = HCI_STATUS K ''HCI_PAIRING_NOT_SUPPORTED'', str = ''Pairing With Unit Key Not Supported''\<rparr>,
     \<lparr>code = HCI_STATUS K ''HCI_TRANSACTION_COLLISION'', str = ''Different Transaction Collision''\<rparr>,
     \<lparr>code = HCI_STATUS K ''HCI_QOS_UNACCEPTABLE_PARAMETER'', str = ''QoS Unacceptable Parameter''\<rparr>,
     \<lparr>code = HCI_STATUS K ''HCI_QOS_REJECTED'', str = ''QoS Rejected''\<rparr>,
     \<lparr>code = HCI_STATUS K ''HCI_CLASSIFICATION_NOT_SUPPORTED'', str = ''Channel Classification Not Supported''\<rparr>,
     \<lparr>code = HCI_STATUS K ''HCI_INSUFFICIENT_SECURITY'', str = ''Insufficient Security''\<rparr>,
     \<lparr>code = HCI_STATUS K ''HCI_PARAMETER_OUT_OF_RANGE'', str = ''Parameter Out Of Mandatory Range''\<rparr>,
     \<lparr>code = HCI_STATUS K ''HCI_ROLE_SWITCH_PENDING'', str = ''Role Switch Pending''\<rparr>,
     \<lparr>code = HCI_STATUS K ''HCI_SLOT_VIOLATION'', str = ''Reserved Slot Violation''\<rparr>,
     \<lparr>code = HCI_STATUS K ''HCI_ROLE_SWITCH_FAILED'', str = ''Role Switch Failed''\<rparr>]"

text \<open>The loop \<open>for (ptr = array; ptr->code; ptr++)\<close>: it stops at the first entry
  whose code is 0 and returns the text of the first entry whose code is the one sought.\<close>

fun error_scan :: "bluez_error_t list \<Rightarrow> 32 word \<Rightarrow> string option" where
  "error_scan [] ecode = None"
| "error_scan (p # ptr) ecode =
     (if code p = 0 then None
      else if code p = ecode then Some (str p)
      else error_scan ptr ecode)"

definition bluez_dbus_error_to_str :: "macros \<Rightarrow> env \<Rightarrow> 32 word \<Rightarrow> string option" where
  "bluez_dbus_error_to_str K env ecode =
     (if ecode AND BLUEZ_ESYSTEM_OFFSET K \<noteq> 0
      then Some (strerror env (NOT (BLUEZ_ESYSTEM_OFFSET K) AND ecode))
      else if ecode AND BLUEZ_EDBUS_OFFSET K \<noteq> 0
      then error_scan (dbus_error_array K) ecode
      else error_scan (hci_error_array K) ecode)"

definition bluez_new_failure_msg ::
  "macros \<Rightarrow> env \<Rightarrow> method_call \<Rightarrow> 32 word \<Rightarrow> dbus_message option" where
  "bluez_new_failure_msg K env msg ecode =
     (case bluez_dbus_error_to_str K env ecode of
        None \<Rightarrow> None
      | Some error_msg \<Rightarrow>
          Some (dbus_message_append_args
                  (dbus_message_new_error msg (ERROR_INTERFACE K) error_msg)
                  [DBUS_TYPE_UINT32 ecode]))"

subsection \<open>Reading and setting the scan mode\<close>

definition handle_dev_get_mode_req ::
  "macros \<Rightarrow> method_call \<Rightarrow> hci_dbus_data \<Rightarrow> hcid \<Rightarrow> dbus_message option \<times> hcid" where
  "handle_dev_get_mode_req K msg dbus_data s =
     (let hci_mode = (ucast (path_data dbus_data) :: 8 word);
          scan_mode =
            (if hci_mode = SCAN_DISABLED K then MODE_OFF K
             else if hci_mode = SCAN_PAGE K then MODE_CONNECTABLE K
             else if hci_mode = (SCAN_PAGE K OR SCAN_INQUIRY K) then MODE_DISCOVERABLE K
             else 0xff);
          reply = dbus_message_new_method_return msg
      in (Some (dbus_message_append_args reply [DBUS_TYPE_BYTE scan_mode]), s))"

text \<open>
  \<open>dbus_message_get_args\<close> with one \<open>DBUS_TYPE_BYTE\<close>: the first argument of the
  call if it is a byte; otherwise the local keeps what it held.
\<close>

definition get_byte_arg :: "env \<Rightarrow> method_call \<Rightarrow> 8 word" where
  "get_byte_arg env msg =
     (case call_args msg of
        DBUS_TYPE_BYTE b # rest \<Rightarrow> b
      | _ \<Rightarrow> uninitialised_uint8 env)"

definition write_scan_enable :: "8 word \<Rightarrow> hci_request" where
  "write_scan_enable hci_mode =
     \<lparr>rq_ogf = OGF_HOST_CTL, rq_ocf = OCF_WRITE_SCAN_ENABLE, rq_cparam = Scan_enable_cp hci_mode\<rparr>"

text \<open>The \<open>switch\<close> of \<open>handle_dev_set_mode_req\<close>: the raw mode of a scan mode, and
  nothing for a value that is not one of the three modes.\<close>

definition set_mode_switch :: "macros \<Rightarrow> 8 word \<Rightarrow> 8 word option" where
  "set_mode_switch K scan_mode =
     (if scan_mode = MODE_OFF K then Some (SCAN_DISABLED K)
      else if scan_mode = MODE_CONNECTABLE K then Some (SCAN_PAGE K)
      else if scan_mode = MODE_DISCOVERABLE K then Some (SCAN_PAGE K OR SCAN_INQUIRY K)
      else None)"

definition handle_dev_set_mode_req ::
  "macros \<Rightarrow> env \<Rightarrow> method_call \<Rightarrow> hci_dbus_data \<Rightarrow> hcid \<Rightarrow> dbus_message option \<times> hcid" where
  "handle_dev_set_mode_req K env msg dbus_data s =
     (let current_mode = (ucast (path_data dbus_data) :: 8 word);
          scan_mode = get_byte_arg env msg
      in case set_mode_switch K scan_mode of
           None \<Rightarrow> (bluez_new_failure_msg K env msg (BLUEZ_EDBUS_WRONG_PARAM K), s)
         | Some hci_mode \<Rightarrow>
             (let s1 = emit (Hci_open_dev (uint (dev_id dbus_data))) s
              in case hci_open_dev env (uint (dev_id dbus_data)) of
                   Inl errno \<Rightarrow> (bluez_new_failure_msg K env msg (BLUEZ_ESYSTEM_ENODEV K), s1)
                 | Inr dd \<Rightarrow>
                     if current_mode \<noteq> hci_mode then
                       (let rq = write_scan_enable hci_mode;
                            s2 = emit (Hci_send_req dd rq 100) s1
                        in case hci_send_req env dd rq 100 of
                             Inl errno \<Rightarrow>
                               (bluez_new_failure_msg K env msg
                                  (BLUEZ_ESYSTEM_OFFSET K OR word_of_int errno),
                                emit (Hci_close_dev dd) s2)
                           | Inr rp \<Rightarrow>
                               if rp_status rp \<noteq> 0 then
                                 (bluez_new_failure_msg K env msg
                                    (BLUEZ_EBT_OFFSET K OR ucast (rp_status rp)),
                                  emit (Hci_close_dev dd) s2)
                               else
                                 (Some (dbus_message_new_method_return msg),
                                  emit (Hci_close_dev dd) s2))
                     else
                       (Some (dbus_message_new_method_return msg),
                        emit (Hci_close_dev dd) s1)))"

subsection \<open>The service tables and the two message functions\<close>

text \<open>
  An entry of a service table names a method, the function that serves it and the
  signature of its arguments. The functions are named here by a tag each (the C name with
  a capital); a message function is given \<open>call\<close>, which runs the function of a tag
  on the message, the user data of the path and the state, and returns the reply (if
  any) and the new state. The lists leave out the closing \<open>{ NULL, NULL, NULL }\<close>.
\<close>

datatype handler =
    Handle_dev_get_address_req |
    Handle_dev_get_alias_req |
    Handle_dev_get_company_req |
    Handle_dev_get_discoverable_to_req |
    Handle_dev_get_features_req |
    Handle_dev_get_manufacturer_req |
    Handle_dev_get_mode_req |
    Handle_dev_get_name_req |
    Handle_dev_get_revision_req |
    Handle_dev_get_version_req |
    Handle_dev_is_connectable_req |
    Handle_dev_is_discoverable_req |
    Handle_dev_set_alias_req |
    Handle_dev_set_class_req |
    Handle_dev_set_discoverable_to_req |
    Handle_dev_set_mode_req |
    Handle_dev_set_name_req |
    Handle_dev_discover_req |
    Handle_dev_discover_cache_req |
    Handle_dev_discover_cancel_req |
    Handle_dev_discover_service_req |
    Handle_dev_last_seen_req |
    Handle_dev_last_used_req |
    Handle_dev_remote_alias_req |
    Handle_dev_remote_name_req |
    Handle_dev_remote_version_req |
    Handle_dev_create_bonding_req |
    Handle_dev_list_bondings_req |
    Handle_dev_has_bonding_req |
    Handle_dev_remove_bonding_req |
    Handle_dev_pin_code_length_req |
    Handle_dev_encryption_key_size_req |
    Handle_mgr_device_list_req |
    Handle_mgr_default_device_req

record service_data =
  name :: string
  handler_func :: handler
  signature :: string

type_synonym service_handler_func_t =
  "method_call \<Rightarrow> hci_dbus_data \<Rightarrow> hcid \<Rightarrow> dbus_message option \<times> hcid"

definition dev_services :: "macros \<Rightarrow> service_data list" where
  "dev_services K =
    [
    \<lparr>name = SERVICE K ''DEV_GET_ADDRESS'', handler_func = Handle_dev_get_address_req, signature = SERVICE K ''DEV_GET_ADDRESS_SIGNATURE''\<rparr>,
     \<lparr>name = SERVICE K ''DEV_GET_ALIAS'', handler_func = Handle_dev_get_alias_req, signature = SERVICE K ''DEV_GET_ALIAS_SIGNATURE''\<rparr>,
     \<lparr>name = SERVICE K ''DEV_GET_COMPANY'', handler_func = Handle_dev_get_company_req, signature = SERVICE K ''DEV_GET_COMPANY_SIGNATURE''\<rparr>,
     \<lparr>name = SERVICE K ''DEV_GET_DISCOVERABLE_TO'', handler_func = Handle_dev_get_discoverable_to_req, signature = SERVICE K ''DEV_GET_DISCOVERABLE_TO_SIGNATURE''\<rparr>,
     \<lparr>name = SERVICE K ''DEV_GET_FEATURES'', handler_func = Handle_dev_get_features_req, signature = SERVICE K ''DEV_GET_FEATURES_SIGNATURE''\<rparr>,
     \<lparr>name = SERVICE K ''DEV_GET_MANUFACTURER'', handler_func = Handle_dev_get_manufacturer_req, signature = SERVICE K ''DEV_GET_MANUFACTURER_SIGNATURE''\<rparr>,
     \<lparr>name = SERVICE K ''DEV_GET_MODE'', handler_func = Handle_dev_get_mode_req, signature = SERVICE K ''DEV_GET_MODE_SIGNATURE''\<rparr>,
     \<lparr>name = SERVICE K ''DEV_GET_NAME'', handler_func = Handle_dev_get_name_req, signature = SERVICE K ''DEV_GET_NAME_SIGNATURE''\<rparr>,
     \<lparr>name = SERVICE K ''DEV_GET_REVISION'', handler_func = Handle_dev_get_revision_req, signature = SERVICE K ''DEV_GET_REVISION_SIGNATURE''\<rparr>,
     \<lparr>name = SERVICE K ''DEV_GET_VERSION'', handler_func = Handle_dev_get_version_req, signature = SERVICE K ''DEV_GET_VERSION_SIGNATURE''\<rparr>,
     \<lparr>name = SERVICE K ''DEV_IS_CONNECTABLE'', handler_func = Handle_dev_is_connectable_req, signature = SERVICE K ''DEV_IS_CONNECTABLE_SIGNATURE''\<rparr>,
     \<lparr>name = SERVICE K ''DEV_IS_DISCOVERABLE'', handler_func = Handle_dev_is_discoverable_req, signature = SERVICE K ''DEV_IS_DISCOVERABLE_SIGNATURE''\<rparr>,
     \<lparr>name = SERVICE K ''DEV_SET_ALIAS'', handler_func = Handle_dev_set_alias_req, signature = SERVICE K ''DEV_SET_ALIAS_SIGNATURE''\<rparr>,
     \<lparr>name = SERVICE K ''DEV_SET_CLASS'', handler_func = Handle_dev_set_class_req, signature = SERVICE K ''DEV_SET_CLASS_SIGNATURE''\<rparr>,
     \<lparr>name = SERVICE K ''DEV_SET_DISCOVERABLE_TO'', handler_func = Handle_dev_set_discoverable_to_req, signature = SERVICE K ''DEV_SET_DISCOVERABLE_TO_SIGNATURE''\<rparr>,
     \<lparr>name = SERVICE K ''DEV_SET_MODE'', handler_func = Handle_dev_set_mode_req, signature = SERVICE K ''DEV_SET_MODE_SIGNATURE''\<rparr>,
     \<lparr>name = SERVICE K ''DEV_SET_NAME'', handler_func = Handle_dev_set_name_req, signature = SERVICE K ''DEV_SET_NAME_SIGNATURE''\<rparr>,
     \<lparr>name = SERVICE K ''DEV_DISCOVER'', handler_func = Handle_dev_discover_req, signature = SERVICE K ''DEV_DISCOVER_SIGNATURE''\<rparr>,
     \<lparr>name = SERVICE K ''DEV_DISCOVER_CACHE'', handler_func = Handle_dev_discover_cache_req, signature = SERVICE K ''DEV_DISCOVER_CACHE_SIGNATURE''\<rparr>,
     \<lparr>name = SERVICE K ''DEV_DISCOVER_CANCEL'', handler_func = Handle_dev_discover_cancel_req, signature = SERVICE K ''DEV_DISCOVER_CANCEL_SIGNATURE''\<rparr>,
     \<lparr>name = SERVICE K ''DEV_DISCOVER_SERVICE'', handler_func = Handle_dev_discover_service_req, signature = SERVICE K ''DEV_DISCOVER_SERVICE_SIGNATURE''\<rparr>,
     \<lparr>name = SERVICE K ''DEV_LAST_SEEN'', handler_func = Handle_dev_last_seen_req, signature = SERVICE K ''DEV_LAST_SEEN_SIGNATURE''\<rparr>,
     \<lparr>name = SERVICE K ''DEV_LAST_USED'', handler_func = Handle_dev_last_used_req, signature = SERVICE K ''DEV_LAST_USED_SIGNATURE''\<rparr>,
     \<lparr>name = SERVICE K ''DEV_REMOTE_ALIAS'', handler_func = Handle_dev_remote_alias_req, signature = SERVICE K ''DEV_REMOTE_ALIAS_SIGNATURE''\<rparr>,
     \<lparr>name = SERVICE K ''DEV_REMOTE_NAME'', handler_func = Handle_dev_remote_name_req, signature = SERVICE K ''DEV_REMOTE_NAME_SIGNATURE''\<rparr>,
     \<lparr>name = SERVICE K ''DEV_REMOTE_VERSION'', handler_func = Handle_dev_remote_version_req, signature = SERVICE K ''DEV_REMOTE_VERSION_SIGNATURE''\<rparr>,
     \<lparr>name = SERVICE K ''DEV_CREATE_BONDING'', handler_func = Handle_dev_create_bonding_req, signature = SERVICE K ''DEV_CREATE_BONDING_SIGNATURE''\<rparr>,
     \<lparr>name = SERVICE K ''DEV_LIST_BONDINGS'', handler_func = Handle_dev_list_bondings_req, signature = SERVICE K ''DEV_LIST_BONDINGS_SIGNATURE''\<rparr>,
     \<lparr>name = SERVICE K ''DEV_HAS_BONDING_NAME'', handler_func = Handle_dev_has_bonding_req, signature = SERVICE K ''DEV_HAS_BONDING_SIGNATURE''\<rparr>,
     \<lparr>name = SERVICE K ''DEV_REMOVE_BONDING'', handler_func = Handle_dev_remove_bonding_req, signature = SERVICE K ''DEV_REMOVE_BONDING_SIGNATURE''\<rparr>,
     \<lparr>name = SERVICE K ''DEV_PIN_CODE_LENGTH'', handler_func = Handle_dev_pin_code_length_req, signature = SERVICE K ''DEV_PIN_CODE_LENGTH_SIGNATURE''\<rparr>,
     \<lparr>name = SERVICE K ''DEV_ENCRYPTION_KEY_SIZE'', handler_func = Handle_dev_encryption_key_size_req, signature = SERVICE K ''DEV_ENCRYPTION_KEY_SIZE_SIGNATURE''\<rparr>]"

definition mgr_services :: "macros \<Rightarrow> service_data list" where
  "mgr_services K =
    [
    \<lparr>name = SERVICE K ''MGR_DEVICE_LIST'', handler_func = Handle_mgr_device_list_req, signature = SERVICE K ''MGR_DEVICE_LIST_SIGNATURE''\<rparr>,
     \<lparr>name = SERVICE K ''MGR_DEFAULT_DEVICE'', handler_func = Handle_mgr_default_device_req, signature = SERVICE K ''MGR_DEFAULT_DEVICE_SIGNATURE''\<rparr>]"

datatype DBusHandlerResult =
    DBUS_HANDLER_RESULT_HANDLED
  | DBUS_HANDLER_RESULT_NOT_YET_HANDLED

text \<open>
  The loop of \<open>msg_func_device\<close> over the table, on the locals \<open>ret\<close>,
  \<open>error\<close> and \<open>reply\<close>: an entry of another name is skipped; an entry of the
  name and the signature is called and ends the loop; an entry of the name and another
  signature sets the error and the loop goes on.
\<close>

fun msg_func_device_loop ::
  "macros \<Rightarrow> (handler \<Rightarrow> service_handler_func_t) \<Rightarrow> service_data list \<Rightarrow> method_call \<Rightarrow>
   hci_dbus_data \<Rightarrow> DBusHandlerResult \<times> 32 word \<times> dbus_message option \<times> hcid \<Rightarrow>
   DBusHandlerResult \<times> 32 word \<times> dbus_message option \<times> hcid" where
  "msg_func_device_loop K call [] msg data (ret, error, reply, s) = (ret, error, reply, s)"
| "msg_func_device_loop K call (h # handlers) msg data (ret, error, reply, s) =
     (if name h \<noteq> call_member msg
      then msg_func_device_loop K call handlers msg data (ret, error, reply, s)
      else if signature h = dbus_message_get_signature msg
      then (case call (handler_func h) msg data s of
              (reply', s') \<Rightarrow> (DBUS_HANDLER_RESULT_HANDLED, 0, reply', s'))
      else msg_func_device_loop K call handlers msg data
             (DBUS_HANDLER_RESULT_HANDLED, BLUEZ_EDBUS_WRONG_SIGNATURE K, reply, s))"

text \<open>The common end of both message functions: an error left in \<open>error\<close> replaces
  the reply by a failure message, and a reply, if there is one, is sent.\<close>

definition send_reply ::
  "macros \<Rightarrow> env \<Rightarrow> method_call \<Rightarrow> DBusHandlerResult \<times> 32 word \<times> dbus_message option \<times> hcid \<Rightarrow>
   DBusHandlerResult \<times> hcid" where
  "send_reply K env msg st =
     (case st of (ret, error, reply, s) \<Rightarrow>
        (let reply' = (if error \<noteq> 0 then bluez_new_failure_msg K env msg error else reply)
         in case reply' of
              None \<Rightarrow> (ret, s)
            | Some r \<Rightarrow> (ret, emit (Dbus_connection_send r) s)))"

definition msg_func_device ::
  "macros \<Rightarrow> env \<Rightarrow> (handler \<Rightarrow> service_handler_func_t) \<Rightarrow> method_call \<Rightarrow> hci_dbus_data \<Rightarrow>
   hcid \<Rightarrow> DBusHandlerResult \<times> hcid" where
  "msg_func_device K env call msg data s =
     (if path_id data = DEVICE_ROOT_ID K
      then send_reply K env msg
             (DBUS_HANDLER_RESULT_HANDLED, BLUEZ_EDBUS_UNKNOWN_PATH K, None, s)
      else send_reply K env msg
             (msg_func_device_loop K call (dev_services K) msg data
                (DBUS_HANDLER_RESULT_NOT_YET_HANDLED, BLUEZ_EDBUS_UNKNOWN_METHOD K, None, s)))"

text \<open>
  The loop of \<open>msg_func_manager\<close> has no \<open>break\<close>: every entry of the name is
  looked at, and each one either sets the error or calls its function and clears the error.
\<close>

fun msg_func_manager_loop ::
  "macros \<Rightarrow> (handler \<Rightarrow> service_handler_func_t) \<Rightarrow> service_data list \<Rightarrow> method_call \<Rightarrow>
   hci_dbus_data \<Rightarrow> DBusHandlerResult \<times> 32 word \<times> dbus_message option \<times> hcid \<Rightarrow>
   DBusHandlerResult \<times> 32 word \<times> dbus_message option \<times> hcid" where
  "msg_func_manager_loop K call [] msg data (ret, error, reply, s) = (ret, error, reply, s)"
| "msg_func_manager_loop K call (h # handlers) msg data (ret, error, reply, s) =
     (if name h \<noteq> call_member msg
      then msg_func_manager_loop K call handlers msg data (ret, error, reply, s)
      else if signature h \<noteq> dbus_message_get_signature msg
      then msg_func_manager_loop K call handlers msg data
             (DBUS_HANDLER_RESULT_HANDLED, BLUEZ_EDBUS_WRONG_SIGNATURE K, reply, s)
      else (case call (handler_func h) msg data s of
              (reply', s') \<Rightarrow>
                msg_func_manager_loop K call handlers msg data
                  (DBUS_HANDLER_RESULT_HANDLED, 0, reply', s')))"

text \<open>
  Where the C code reads or writes through a pointer that is NULL, or copies past the end
  of an array, its behaviour is undefined; the embedded function then returns one of the
  faults below in place of a result.

  \<open>msg_func_manager\<close> compares the interface of the call with \<open>strcmp\<close> before
  anything else. A call may come without an interface; \<open>strcmp\<close> then reads through a
  null pointer.
\<close>

datatype fault = NULL_POINTER_READ | NULL_POINTER_WRITE | BUFFER_OVERFLOW

definition msg_func_manager ::
  "macros \<Rightarrow> env \<Rightarrow> (handler \<Rightarrow> service_handler_func_t) \<Rightarrow> method_call \<Rightarrow> hci_dbus_data \<Rightarrow>
   hcid \<Rightarrow> fault + DBusHandlerResult \<times> hcid" where
  "msg_func_manager K env call msg data s =
     (case call_interface msg of
        None \<Rightarrow> Inl NULL_POINTER_READ
      | Some iface \<Rightarrow>
          if iface \<noteq> MANAGER_INTERFACE K
          then Inr (DBUS_HANDLER_RESULT_NOT_YET_HANDLED, s)
          else Inr (send_reply K env msg
                 (msg_func_manager_loop K call (mgr_services K) msg data
                    (DBUS_HANDLER_RESULT_NOT_YET_HANDLED, BLUEZ_EDBUS_UNKNOWN_METHOD K, None, s))))"

subsection \<open>Object paths of the controllers\<close>

text \<open>\<open>%d\<close> of \<open>snprintf\<close>, and the path \<open>"%s/hci%d"\<close> of a controller written
  into a buffer of \<open>MAX_PATH_LENGTH\<close> bytes, which keeps 63 characters.\<close>

function dec :: "nat \<Rightarrow> string" where
  "dec n = (if n < 10 then [''0123456789'' ! n]
            else dec (n div 10) @ [''0123456789'' ! (n mod 10)])"
  by pat_completeness auto
termination
  by (relation "measure id") auto

declare dec.simps [simp del]

definition printf_d :: "int \<Rightarrow> string" where
  "printf_d i = (if i < 0 then CHR ''-'' # dec (nat (- i)) else dec (nat i))"

definition MAX_PATH_LENGTH :: nat where
  "MAX_PATH_LENGTH = 64"

definition device_path :: "macros \<Rightarrow> int \<Rightarrow> string" where
  "device_path K devid = take (MAX_PATH_LENGTH - 1) (DEVICE_PATH K @ ''/hci'' @ printf_d devid)"

subsection \<open>Registering and unregistering paths and controllers\<close>

text \<open>
  \<open>register_dbus_path\<close> allocates the user data, fills in the two identifiers and
  leaves \<open>path_data\<close> as the allocator gave it, then binds the data to the path. The
  binding lives in the bus library; here it is the entry of \<open>object_paths\<close>.
  \<open>dbus_connection_get_object_path_data\<close> hands back that entry. For a path that
  nothing is registered at it succeeds all the same and hands back NULL (here: no
  entry); this is why \<open>unregister_dbus_path\<close> tests \<open>&& data\<close> before it frees
  the data. Freeing is not part of the model, so that test leaves no mark below.
\<close>

definition register_dbus_path ::
  "env \<Rightarrow> string \<Rightarrow> 16 word \<Rightarrow> 16 word \<Rightarrow> vtable \<Rightarrow> bool \<Rightarrow> hcid \<Rightarrow> bool \<times> hcid" where
  "register_dbus_path env p pid did pvtable fallback s =
     (if \<not> malloc env Path_data_block then (False, s)
      else
        (let data = \<lparr>dev_id = did, path_id = pid, path_data = fresh_path_data env\<rparr>;
             s1 = emit (Dbus_connection_register p pvtable fallback) s
         in if \<not> dbus_connection_register env p then (False, s1)
            else (True, s1\<lparr>object_paths := (object_paths s1)(p \<mapsto> data)\<rparr>)))"

definition unregister_dbus_path :: "env \<Rightarrow> string \<Rightarrow> hcid \<Rightarrow> bool \<times> hcid" where
  "unregister_dbus_path env p s =
     (let s1 = emit (Dbus_connection_unregister_object_path p) s
      in if \<not> dbus_connection_unregister_object_path env p then (False, s1)
         else (True, s1\<lparr>object_paths := (object_paths s1)(p := None)\<rparr>))"

definition read_scan_enable :: hci_request where
  "read_scan_enable =
     \<lparr>rq_ogf = OGF_HOST_CTL, rq_ocf = OCF_READ_SCAN_ENABLE, rq_cparam = No_param\<rparr>"

text \<open>
  Lines 560 to 580 of \<open>hcid_dbus_register_device\<close>: the descriptor (if the controller
  opened) and the value left in \<open>rp.enable\<close>.
\<close>

definition register_device_scan ::
  "macros \<Rightarrow> env \<Rightarrow> 16 word \<Rightarrow> hcid \<Rightarrow> int option \<times> 8 word \<times> hcid" where
  "register_device_scan K env id' s =
     (let s1 = emit (Hci_open_dev (uint id')) s
      in case hci_open_dev env (uint id') of
           Inl errno \<Rightarrow> (None, SCAN_PAGE K OR SCAN_INQUIRY K, s1)
         | Inr dd \<Rightarrow>
             (let s2 = emit (Hci_send_req dd read_scan_enable 500) s1
              in case hci_send_req env dd read_scan_enable 500 of
                   Inl errno \<Rightarrow> (Some dd, SCAN_PAGE K OR SCAN_INQUIRY K, s2)
                 | Inr rp \<Rightarrow>
                     if rp_status rp \<noteq> 0
                     then (Some dd, SCAN_PAGE K OR SCAN_INQUIRY K, s2)
                     else (Some dd, rp_enable rp, s2)))"

text \<open>The signal of the manager path that announces a controller, with its allocation
  test and its send; used for "added" and "removed" alike.\<close>

definition manager_signal :: "macros \<Rightarrow> env \<Rightarrow> string \<Rightarrow> string \<Rightarrow> hcid \<Rightarrow> hcid" where
  "manager_signal K env signame p s =
     (if \<not> dbus_message_new env then s
      else
        (let message = dbus_message_append_args
                         (dbus_message_new_signal (MANAGER_PATH K) (MANAGER_INTERFACE K) signame)
                         [DBUS_TYPE_STRING p];
             s1 = emit (Dbus_connection_send message) s
         in if \<not> dbus_connection_send env message then s1
            else emit Dbus_connection_flush s1))"

definition close_dev :: "int option \<Rightarrow> hcid \<Rightarrow> hcid" where
  "close_dev dd s = (case dd of None \<Rightarrow> s | Some d \<Rightarrow> emit (Hci_close_dev d) s)"

text \<open>
  Lines 582 to 585 of \<open>hcid_dbus_register_device\<close>: the scan status is written into
  the user data that \<open>dbus_connection_get_object_path_data\<close> hands back, with no test
  of the pointer. When the lookup fails the state stays as it is; when nothing is
  registered at the path the write goes through NULL.
\<close>

definition keep_scan_status :: "env \<Rightarrow> string \<Rightarrow> 8 word \<Rightarrow> hcid \<Rightarrow> fault + hcid" where
  "keep_scan_status env p enable s =
     (if \<not> dbus_connection_get_object_path_data env p then Inr s
      else case object_paths s p of
             None \<Rightarrow> Inl NULL_POINTER_WRITE
           | Some pdata \<Rightarrow>
               Inr (s\<lparr>object_paths := (object_paths s)(p \<mapsto> pdata\<lparr>path_data := ucast enable\<rparr>)\<rparr>))"

definition hcid_dbus_register_device ::
  "macros \<Rightarrow> env \<Rightarrow> 16 word \<Rightarrow> hcid \<Rightarrow> fault + bool \<times> hcid" where
  "hcid_dbus_register_device K env id' s =
     (let p = device_path K (uint id')
      in case register_dbus_path env p (DEVICE_PATH_ID K) id' Obj_dev_vtable False s of
           (ret, s1) \<Rightarrow>
             (case register_device_scan K env id' s1 of
                (dd, enable, s2) \<Rightarrow>
                  (case keep_scan_status env p enable s2 of
                     Inl f \<Rightarrow> Inl f
                   | Inr s3 \<Rightarrow>
                       (let s4 = manager_signal K env (BLUEZ_MGR_DEV_ADDED K) p s3;
                            s5 = (if ret \<and> default_dev s4 < 0
                                  then s4\<lparr>default_dev := uint id'\<rparr> else s4)
                        in Inr (ret, close_dev dd s5)))))"

definition hcid_dbus_unregister_device :: "macros \<Rightarrow> env \<Rightarrow> 16 word \<Rightarrow> hcid \<Rightarrow> bool \<times> hcid" where
  "hcid_dbus_unregister_device K env id' s =
     (let p = device_path K (uint id');
          s1 = manager_signal K env (BLUEZ_MGR_DEV_REMOVED K) p s
      in case unregister_dbus_path env p s1 of
           (ret, s2) \<Rightarrow>
             if ret \<and> default_dev s2 = uint id'
             then (ret, (emit Hci_get_route s2)\<lparr>default_dev := hci_get_route env\<rparr>)
             else (ret, s2))"

definition handle_mgr_default_device_req ::
  "macros \<Rightarrow> env \<Rightarrow> method_call \<Rightarrow> hci_dbus_data \<Rightarrow> hcid \<Rightarrow> dbus_message option \<times> hcid" where
  "handle_mgr_default_device_req K env msg data s =
     (if default_dev s < 0
      then (bluez_new_failure_msg K env msg (BLUEZ_ESYSTEM_ENODEV K), s)
      else if \<not> dbus_message_new env then (None, s)
      else (Some (dbus_message_append_args (dbus_message_new_method_return msg)
                    [DBUS_TYPE_STRING (device_path K (default_dev s))]), s))"

text \<open>
  \<open>hcid_dbus_setscan_enable_complete\<close> runs when the controller reports that a
  scan-enable write has completed: it reads the mode back from the controller, stores it
  in the user data of the controller's path and, for one of the three known modes,
  signals the change on that path. The user data is again written with no test of the
  pointer that the lookup hands back. \<open>mode_changed_signal\<close> is the \<open>switch\<close> of
  the function and the signal that follows it.
\<close>

definition mode_changed_signal :: "macros \<Rightarrow> env \<Rightarrow> string \<Rightarrow> 8 word \<Rightarrow> hcid \<Rightarrow> hcid" where
  "mode_changed_signal K env p enable s =
     (let switch =
            (if enable = SCAN_DISABLED K then Some (MODE_OFF K)
             else if enable = SCAN_PAGE K then Some (MODE_CONNECTABLE K)
             else if enable = (SCAN_PAGE K OR SCAN_INQUIRY K) then Some (MODE_DISCOVERABLE K)
             else None)
      in case switch of
           None \<Rightarrow> s
         | Some scan_mode \<Rightarrow>
             if \<not> dbus_message_new env then s
             else
               (let message = dbus_message_append_args
                                (dbus_message_new_signal p (DEVICE_INTERFACE K)
                                   (DEV_SIG_MODE_CHANGED K))
                                [DBUS_TYPE_BYTE scan_mode];
                    s1 = emit (Dbus_connection_send message) s
                in if \<not> dbus_connection_send env message then s1
                   else emit Dbus_connection_flush s1))"

definition hcid_dbus_setscan_enable_complete ::
  "macros \<Rightarrow> env \<Rightarrow> bdaddr_t \<Rightarrow> hcid \<Rightarrow> fault + hcid" where
  "hcid_dbus_setscan_enable_complete K env local s =
     (let local_addr = batostr env (baswap env local);
          id' = hci_devid env local_addr;
          s0 = emit (Hci_devid local_addr) s
      in if id' < 0 then Inr s0
         else
           (let p = device_path K id';
                s1 = emit (Hci_open_dev id') s0
            in case hci_open_dev env id' of
                 Inl errno \<Rightarrow> Inr s1
               | Inr dd \<Rightarrow>
                   (let s2 = emit (Hci_send_req dd read_scan_enable 100) s1
                    in case hci_send_req env dd read_scan_enable 100 of
                         Inl errno \<Rightarrow> Inr (emit (Hci_close_dev dd) s2)
                       | Inr rp \<Rightarrow>
                           if rp_status rp \<noteq> 0 then Inr (emit (Hci_close_dev dd) s2)
                           else if \<not> dbus_connection_get_object_path_data env p
                           then Inr (emit (Hci_close_dev dd) s2)
                           else
                             (case object_paths s2 p of
                                None \<Rightarrow> Inl NULL_POINTER_WRITE
                              | Some pdata \<Rightarrow>
                                  (let s3 = s2\<lparr>object_paths :=
                                               (object_paths s2)
                                                 (p \<mapsto> pdata\<lparr>path_data := ucast (rp_enable rp)\<rparr>)\<rparr>
                                   in Inr (emit (Hci_close_dev dd)
                                             (mode_changed_signal K env p (rp_enable rp) s3)))))))"

subsection \<open>Remote names\<close>

definition get_device_name ::
  "macros \<Rightarrow> env \<Rightarrow> bdaddr_t \<Rightarrow> bdaddr_t \<Rightarrow> hcid \<Rightarrow> string option \<times> hcid" where
  "get_device_name K env local peer s =
     (let filename = take (PATH_MAX K - 1)
                       (STORAGEDIR K @ ''/'' @ ba2str env local @ ''/names'');
          addr = ba2str env peer
      in (textfile_get env filename addr, emit (Textfile_get filename addr) s))"

definition get_string_arg :: "env \<Rightarrow> method_call \<Rightarrow> string" where
  "get_string_arg env msg =
     (case call_args msg of
        DBUS_TYPE_STRING a # rest \<Rightarrow> a
      | _ \<Rightarrow> uninitialised_string env)"

definition remote_name_req :: "bdaddr_t \<Rightarrow> hci_request" where
  "remote_name_req a =
     \<lparr>rq_ogf = OGF_LINK_CTL, rq_ocf = OCF_REMOTE_NAME_REQ,
      rq_cparam = Remote_name_req_cp a 0x02\<rparr>"

definition handle_dev_remote_name_req ::
  "macros \<Rightarrow> env \<Rightarrow> method_call \<Rightarrow> hci_dbus_data \<Rightarrow> hcid \<Rightarrow> dbus_message option \<times> hcid" where
  "handle_dev_remote_name_req K env msg dbus_data s =
     (let str_bdaddr = get_string_arg env msg;
          peer = str2ba env str_bdaddr;
          s1 = emit (Hci_devinfo (uint (dev_id dbus_data))) s
      in case hci_devinfo env (uint (dev_id dbus_data)) of
           Inl errno \<Rightarrow> (bluez_new_failure_msg K env msg (BLUEZ_ESYSTEM_ENODEV K), s1)
         | Inr di_bdaddr \<Rightarrow>
             (case get_device_name K env di_bdaddr peer s1 of
                (Some cached, s2) \<Rightarrow>
                  (let reply = dbus_message_new_method_return msg;
                       p = device_path K (uint (dev_id dbus_data));
                       signal = dbus_message_append_args
                                  (dbus_message_new_signal p (DEVICE_INTERFACE K)
                                     (DEV_SIG_REMOTE_NAME K))
                                  [DBUS_TYPE_STRING str_bdaddr, DBUS_TYPE_STRING cached];
                       s3 = emit (Dbus_connection_send signal) s2
                   in if \<not> dbus_connection_send env signal then (Some reply, s3)
                      else (Some (dbus_message_new_method_return msg), s3))
              | (None, s2) \<Rightarrow>
                  (let s3 = emit (Hci_open_dev (uint (dev_id dbus_data))) s2
                   in case hci_open_dev env (uint (dev_id dbus_data)) of
                        Inl errno \<Rightarrow>
                          (bluez_new_failure_msg K env msg
                             (BLUEZ_ESYSTEM_OFFSET K OR word_of_int errno), s3)
                      | Inr dd \<Rightarrow>
                          (let rq = remote_name_req peer;
                               s4 = emit (Hci_send_req dd rq 100) s3
                           in case hci_send_req env dd rq 100 of
                                Inl errno \<Rightarrow>
                                  (bluez_new_failure_msg K env msg
                                     (BLUEZ_ESYSTEM_OFFSET K OR word_of_int errno),
                                   emit (Hci_close_dev dd) s4)
                              | Inr rp \<Rightarrow>
                                  if rp_status rp \<noteq> 0 then
                                    (bluez_new_failure_msg K env msg
                                       (BLUEZ_EBT_OFFSET K OR ucast (rp_status rp)),
                                     emit (Hci_close_dev dd) s4)
                                  else
                                    (Some (dbus_message_new_method_return msg),
                                     emit (Hci_close_dev dd) s4)))))"

subsection \<open>The functions behind the table entries\<close>

definition not_implemented :: "macros \<Rightarrow> env \<Rightarrow> service_handler_func_t" where
  "not_implemented K env msg data s =
     (bluez_new_failure_msg K env msg (BLUEZ_EDBUS_NOT_IMPLEMENTED K), s)"

text \<open>
  The function of each tag. The nineteen functions whose whole body is
  \<open>return bluez_new_failure_msg(msg, BLUEZ_EDBUS_NOT_IMPLEMENTED)\<close> share one
  definition; the functions that are not embedded here are taken from \<open>rest\<close>.
\<close>

fun service_handler ::
  "macros \<Rightarrow> env \<Rightarrow> (handler \<Rightarrow> service_handler_func_t) \<Rightarrow> handler \<Rightarrow> service_handler_func_t" where
  "service_handler K env rest Handle_dev_get_mode_req = handle_dev_get_mode_req K"
| "service_handler K env rest Handle_dev_set_mode_req = handle_dev_set_mode_req K env"
| "service_handler K env rest Handle_dev_remote_name_req = handle_dev_remote_name_req K env"
| "service_handler K env rest Handle_mgr_default_device_req = handle_mgr_default_device_req K env"
| "service_handler K env rest Handle_dev_get_features_req = not_implemented K env"
| "service_handler K env rest Handle_dev_get_alias_req = not_implemented K env"
| "service_handler K env rest Handle_dev_get_discoverable_to_req = not_implemented K env"
| "service_handler K env rest Handle_dev_is_connectable_req = not_implemented K env"
| "service_handler K env rest Handle_dev_is_discoverable_req = not_implemented K env"
| "service_handler K env rest Handle_dev_set_alias_req = not_implemented K env"
| "service_handler K env rest Handle_dev_set_class_req = not_implemented K env"
| "service_handler K env rest Handle_dev_set_discoverable_to_req = not_implemented K env"
| "service_handler K env rest Handle_dev_discover_cache_req = not_implemented K env"
| "service_handler K env rest Handle_dev_discover_service_req = not_implemented K env"
| "service_handler K env rest Handle_dev_last_seen_req = not_implemented K env"
| "service_handler K env rest Handle_dev_last_used_req = not_implemented K env"
| "service_handler K env rest Handle_dev_remote_alias_req = not_implemented K env"
| "service_handler K env rest Handle_dev_remote_version_req = not_implemented K env"
| "service_handler K env rest Handle_dev_list_bondings_req = not_implemented K env"
| "service_handler K env rest Handle_dev_has_bonding_req = not_implemented K env"
| "service_handler K env rest Handle_dev_remove_bonding_req = not_implemented K env"
| "service_handler K env rest Handle_dev_pin_code_length_req = not_implemented K env"
| "service_handler K env rest Handle_dev_encryption_key_size_req = not_implemented K env"
| "service_handler K env rest h = rest h"

subsection \<open>PIN requests\<close>

record pin_request =
  dev :: int
  bda :: bdaddr_t

record hci_conn_info =
  bdaddr :: bdaddr_t
  out :: bool

definition TIMEOUT :: nat where
  "TIMEOUT = 30 * 1000"

definition PINAGENT_SERVICE_NAME :: "macros \<Rightarrow> string" where
  "PINAGENT_SERVICE_NAME K = BASE_INTERFACE K @ ''.PinAgent''"

definition PINAGENT_INTERFACE :: "macros \<Rightarrow> string" where
  "PINAGENT_INTERFACE K = PINAGENT_SERVICE_NAME K"

definition PIN_REQUEST :: string where
  "PIN_REQUEST = ''PinRequest''"

definition PINAGENT_PATH :: "macros \<Rightarrow> string" where
  "PINAGENT_PATH K = BASE_PATH K @ ''/PinAgent''"

definition hcid_dbus_init :: "macros \<Rightarrow> env \<Rightarrow> hcid \<Rightarrow> bool \<times> hcid" where
  "hcid_dbus_init K env s =
     (if \<not> dbus_bus_get env then (False, s\<lparr>connection := False\<rparr>)
      else
        (let s1 = s\<lparr>connection := True\<rparr>
         in if \<not> dbus_bus_request_name env then (False, s1)
            else
              (case register_dbus_path env (DEVICE_PATH K) (DEVICE_ROOT_ID K) (INVALID_DEV_ID K)
                      Obj_dev_vtable True s1 of
                 (r1, s2) \<Rightarrow>
                   if \<not> r1 then (False, s2)
                   else
                     (case register_dbus_path env (MANAGER_PATH K) (MANAGER_ROOT_ID K)
                             (INVALID_DEV_ID K) Obj_mgr_vtable False s2 of
                        (r2, s3) \<Rightarrow>
                          if \<not> r2 then (False, s3)
                          else if \<not> dbus_connection_add_filter env then (False, s3)
                          else (True, s3)))))"

definition pin_code_neg_reply :: "int \<Rightarrow> bdaddr_t \<Rightarrow> effect" where
  "pin_code_neg_reply d a = Hci_send_cmd d OGF_LINK_CTL OCF_PIN_CODE_NEG_REPLY (Bdaddr_cp a)"

text \<open>The method call to the PIN agent: whether the link is outgoing, and the address of
  the peer as an array of bytes.\<close>

definition pin_request_message :: "macros \<Rightarrow> hci_conn_info \<Rightarrow> dbus_message" where
  "pin_request_message K ci =
     Method_call
       \<lparr>call_serial = 0, call_destination = PINAGENT_SERVICE_NAME K,
        call_path = PINAGENT_PATH K, call_interface = Some (PINAGENT_INTERFACE K),
        call_member = PIN_REQUEST,
        call_args = [DBUS_TYPE_BOOLEAN (out ci), DBUS_TYPE_ARRAY_BYTE (bdaddr ci)]\<rparr>"

text \<open>
  \<open>hcid_dbus_request_pin\<close> returns nothing in C; here it returns the request it has
  handed to the pending call, if the call to the agent went out, together with the state.
  The request is allocated with \<open>malloc\<close> and filled in at once, with no test of the
  pointer: when \<open>malloc\<close> returns NULL the write of \<open>req->dev\<close> goes through NULL.
  The result of \<open>dbus_pending_call_set_notify\<close> is not tested either: when the
  library has not installed the notify function (it returns FALSE for want of memory),
  the call to the agent has gone out but the request is handed to nobody and the notify
  function never runs.
\<close>

definition hcid_dbus_request_pin ::
  "macros \<Rightarrow> env \<Rightarrow> int \<Rightarrow> hci_conn_info \<Rightarrow> hcid \<Rightarrow> fault + pin_request option \<times> hcid" where
  "hcid_dbus_request_pin K env d ci s =
     (case (if \<not> connection s then hcid_dbus_init K env s else (True, s)) of
        (ok, s1) \<Rightarrow>
          if \<not> ok then Inr (None, emit (pin_code_neg_reply d (bdaddr ci)) s1)
          else if \<not> dbus_message_new env
          then Inr (None, emit (pin_code_neg_reply d (bdaddr ci)) s1)
          else if \<not> malloc env Pin_request_block then Inl NULL_POINTER_WRITE
          else
            (let message = pin_request_message K ci;
                 req = \<lparr>dev = d, bda = bdaddr ci\<rparr>;
                 s2 = emit (Dbus_connection_send_with_reply message TIMEOUT) s1
             in if \<not> dbus_connection_send_with_reply env message
                then Inr (None, emit (pin_code_neg_reply d (bdaddr ci)) s2)
                else if \<not> dbus_pending_call_set_notify env
                then Inr (None, emit Dbus_connection_flush s2)
                else Inr (Some req, emit Dbus_connection_flush s2)))"

text \<open>
  The array \<open>pin_code\<close> of a \<open>pin_code_reply_cp\<close> holds 16 octets
  (\<open>bluetooth/hci.h\<close>; 16 is the longest PIN of the Bluetooth specification).
\<close>

definition PIN_CODE_SIZE :: nat where
  "PIN_CODE_SIZE = 16"

text \<open>
  \<open>reply_handler_function\<close> is the notify function of the pending call. Its second
  argument here is what \<open>dbus_pending_call_steal_reply\<close> returns: the reply, or NULL.
  For a reply that carries a string, \<open>memcpy\<close> copies \<open>strlen(pin)\<close> bytes into
  \<open>pr.pin_code\<close> with no test of the length: a longer string is copied past the end
  of the array, which lies on the stack. In the error branch the text of the error is
  only written to the log, which is not part of the model.
\<close>

definition reply_handler_function ::
  "pin_request \<Rightarrow> dbus_message option \<Rightarrow> hcid \<Rightarrow> fault + hcid" where
  "reply_handler_function req stolen s =
     (case stolen of
        None \<Rightarrow> Inr s
      | Some message \<Rightarrow>
          if dbus_message_get_type message = DBUS_MESSAGE_TYPE_ERROR
          then Inr (emit (pin_code_neg_reply (dev req) (bda req)) s)
          else
            (case message_args message of
               DBUS_TYPE_STRING pin # rest \<Rightarrow>
                 if PIN_CODE_SIZE < length pin then Inl BUFFER_OVERFLOW
                 else Inr (emit (Hci_send_cmd (dev req) OGF_LINK_CTL OCF_PIN_CODE_REPLY
                                   (Pin_code_reply_cp (bda req) (of_nat (length pin))
                                      (map of_char pin))) s)
             | _ \<Rightarrow> Inr (emit (pin_code_neg_reply (dev req) (bda req)) s)))"

text \<open>
  One authentication event from start to end: the request, and then, if the call to the
  agent went out and the notify function was installed, the notify function. The bus
  library runs the notify function once the pending call is completed, that is, once it
  holds a reply: the message of the agent, or an error message that the library makes up
  itself when the agent does not answer within \<open>TIMEOUT\<close> or leaves the bus.
  \<open>dbus_pending_call_steal_reply\<close> then hands over that reply; it returns NULL only
  for a call that is not completed or whose reply has been taken before, and nothing else
  in the file takes it. So in an event the notify function is given a message,
  \<open>completed\<close> below, and the NULL test at its start is not taken.
\<close>

definition pin_event ::
  "macros \<Rightarrow> env \<Rightarrow> int \<Rightarrow> hci_conn_info \<Rightarrow> dbus_message \<Rightarrow> hcid \<Rightarrow> fault + hcid" where
  "pin_event K env d ci completed s =
     (case hcid_dbus_request_pin K env d ci s of
        Inl f \<Rightarrow> Inl f
      | Inr (None, s1) \<Rightarrow> Inr s1
      | Inr (Some req, s1) \<Rightarrow> reply_handler_function req (Some completed) s1)"

subsection \<open>Reading the trace\<close>

fun is_transport_call :: "effect \<Rightarrow> bool" where
  "is_transport_call (Hci_open_dev d) = True"
| "is_transport_call (Hci_send_req dd rq t) = True"
| "is_transport_call (Hci_send_cmd d g c p) = True"
| "is_transport_call e = False"

fun is_write_scan_enable :: "effect \<Rightarrow> bool" where
  "is_write_scan_enable (Hci_send_req dd rq t) =
     (rq_ogf rq = OGF_HOST_CTL \<and> rq_ocf rq = OCF_WRITE_SCAN_ENABLE)"
| "is_write_scan_enable e = False"

fun is_remote_name_req :: "effect \<Rightarrow> bool" where
  "is_remote_name_req (Hci_send_req dd rq t) =
     (rq_ogf rq = OGF_LINK_CTL \<and> rq_ocf rq = OCF_REMOTE_NAME_REQ)"
| "is_remote_name_req e = False"

fun is_pin_code_reply :: "effect \<Rightarrow> bool" where
  "is_pin_code_reply (Hci_send_cmd d g c p) = (g = OGF_LINK_CTL \<and> c = OCF_PIN_CODE_REPLY)"
| "is_pin_code_reply e = False"

fun is_pin_code_neg_reply :: "effect \<Rightarrow> bool" where
  "is_pin_code_neg_reply (Hci_send_cmd d g c p) = (g = OGF_LINK_CTL \<and> c = OCF_PIN_CODE_NEG_REPLY)"
| "is_pin_code_neg_reply e = False"

fun is_signal :: "effect \<Rightarrow> bool" where
  "is_signal (Dbus_connection_send (Signal p i n as)) = True"
| "is_signal e = False"

definition count :: "(effect \<Rightarrow> bool) \<Rightarrow> effect list \<Rightarrow> nat" where
  "count P es = length (filter P es)"

text \<open>What a function adds to the trace: the trace after, without the trace before.\<close>

definition added :: "hcid \<Rightarrow> hcid \<Rightarrow> effect list" where
  "added s s' = drop (length (trace s)) (trace s')"

subsection \<open>A sample of macro values and a stub environment\<close>

text \<open>
  The closed examples further down need values for the macros. \<open>sample_macros\<close> is one
  assignment: the three error classes are told apart by bits 16 and 17, the local errors
  count from 1 within their class, the status codes of the controller are those of the
  Bluetooth specification, and the scan modes are the bits of its scan-enable octet. Every
  service macro stands for its own name, so that no two rows of a table share a method.
\<close>

definition sample_hci_status :: "(string \<times> 32 word) list" where
  "sample_hci_status =
    [
    (''HCI_UNKNOWN_COMMAND'', 0x01),
     (''HCI_NO_CONNECTION'', 0x02),
     (''HCI_HARDWARE_FAILURE'', 0x03),
     (''HCI_PAGE_TIMEOUT'', 0x04),
     (''HCI_AUTHENTICATION_FAILURE'', 0x05),
     (''HCI_PIN_OR_KEY_MISSING'', 0x06),
     (''HCI_MEMORY_FULL'', 0x07),
     (''HCI_CONNECTION_TIMEOUT'', 0x08),
     (''HCI_MAX_NUMBER_OF_CONNECTIONS'', 0x09),
     (''HCI_MAX_NUMBER_OF_SCO_CONNECTIONS'', 0x0a),
     (''HCI_ACL_CONNECTION_EXISTS'', 0x0b),
     (''HCI_COMMAND_DISALLOWED'', 0x0c),
     (''HCI_REJECTED_LIMITED_RESOURCES'', 0x0d),
     (''HCI_REJECTED_SECURITY'', 0x0e),
     (''HCI_REJECTED_PERSONAL'', 0x0f),
     (''HCI_HOST_TIMEOUT'', 0x10),
     (''HCI_UNSUPPORTED_FEATURE'', 0x11),
     (''HCI_INVALID_PARAMETERS'', 0x12),
     (''HCI_OE_USER_ENDED_CONNECTION'', 0x13),
     (''HCI_OE_LOW_RESOURCES'', 0x14),
     (''HCI_OE_POWER_OFF'', 0x15),
     (''HCI_CONNECTION_TERMINATED'', 0x16),
     (''HCI_REPEATED_ATTEMPTS'', 0x17),
     (''HCI_PAIRING_NOT_ALLOWED'', 0x18),
     (''HCI_UNKNOWN_LMP_PDU'', 0x19),
     (''HCI_UNSUPPORTED_REMOTE_FEATURE'', 0x1a),
     (''HCI_SCO_OFFSET_REJECTED'', 0x1b),
     (''HCI_SCO_INTERVAL_REJECTED'', 0x1c),
     (''HCI_AIR_MODE_REJECTED'', 0x1d),
     (''HCI_INVALID_LMP_PARAMETERS'', 0x1e),
     (''HCI_UNSPECIFIED_ERROR'', 0x1f),
     (''HCI_UNSUPPORTED_LMP_PARAMETER_VALUE'', 0x20),
     (''HCI_ROLE_CHANGE_NOT_ALLOWED'', 0x21),
     (''HCI_LMP_RESPONSE_TIMEOUT'', 0x22),
     (''HCI_LMP_ERROR_TRANSACTION_COLLISION'', 0x23),
     (''HCI_LMP_PDU_NOT_ALLOWED'', 0x24),
     (''HCI_ENCRYPTION_MODE_NOT_ACCEPTED'', 0x25),
     (''HCI_UNIT_LINK_KEY_USED'', 0x26),
     (''HCI_QOS_NOT_SUPPORTED'', 0x27),
     (''HCI_INSTANT_PASSED'', 0x28),
     (''HCI_PAIRING_NOT_SUPPORTED'', 0x29),
     (''HCI_TRANSACTION_COLLISION'', 0x2a),
     (''HCI_QOS_UNACCEPTABLE_PARAMETER'', 0x2c),
     (''HCI_QOS_REJECTED'', 0x2d),
     (''HCI_CLASSIFICATION_NOT_SUPPORTED'', 0x2e),
     (''HCI_INSUFFICIENT_SECURITY'', 0x2f),
     (''HCI_PARAMETER_OUT_OF_RANGE'', 0x30),
     (''HCI_ROLE_SWITCH_PENDING'', 0x32),
     (''HCI_SLOT_VIOLATION'', 0x34),
     (''HCI_ROLE_SWITCH_FAILED'', 0x35)]"

definition sample_macros :: macros where
  "sample_macros =
     \<lparr>BLUEZ_EBT_OFFSET = 0,
      BLUEZ_EDBUS_OFFSET = 0x10000,
      BLUEZ_ESYSTEM_OFFSET = 0x20000,
      BLUEZ_EDBUS_UNKNOWN_METHOD = 0x10001,
      BLUEZ_EDBUS_WRONG_SIGNATURE = 0x10002,
      BLUEZ_EDBUS_WRONG_PARAM = 0x10003,
      BLUEZ_EDBUS_RECORD_NOT_FOUND = 0x10004,
      BLUEZ_EDBUS_NO_MEM = 0x10005,
      BLUEZ_EDBUS_CONN_NOT_FOUND = 0x10006,
      BLUEZ_EDBUS_UNKNOWN_PATH = 0x10007,
      BLUEZ_EDBUS_NOT_IMPLEMENTED = 0x10008,
      BLUEZ_ESYSTEM_ENODEV = 0x20013,
      HCI_STATUS = (\<lambda>m. case map_of sample_hci_status m of Some v \<Rightarrow> v | None \<Rightarrow> 0),
      MANAGER_ROOT_ID = 0,
      DEVICE_ROOT_ID = 1,
      DEVICE_PATH_ID = 2,
      INVALID_DEV_ID = 0xFFFF,
      MODE_OFF = 0,
      MODE_CONNECTABLE = 1,
      MODE_DISCOVERABLE = 2,
      SCAN_DISABLED = 0,
      SCAN_INQUIRY = 1,
      SCAN_PAGE = 2,
      BASE_PATH = ''/org/bluez'',
      BASE_INTERFACE = ''org.bluez'',
      DEVICE_PATH = ''/org/bluez/Device'',
      DEVICE_INTERFACE = ''org.bluez.Device'',
      MANAGER_PATH = ''/org/bluez/Manager'',
      MANAGER_INTERFACE = ''org.bluez.Manager'',
      ERROR_INTERFACE = ''org.bluez.Error'',
      BLUEZ_MGR_DEV_ADDED = ''DeviceAdded'',
      BLUEZ_MGR_DEV_REMOVED = ''DeviceRemoved'',
      DEV_SIG_REMOTE_NAME = ''RemoteName'',
      DEV_SIG_MODE_CHANGED = ''ModeChanged'',
      SERVICE = (\<lambda>m. m),
      STORAGEDIR = ''/var/lib/bluetooth'',
      PATH_MAX = 4096\<rparr>"

text \<open>
  A transport that does nothing and reports success: every controller opens as descriptor
  3, every request is answered with status 0, every allocation and every call into the
  bus library succeeds, the name cache is empty and the kernel has no route.
\<close>

definition stub_env :: env where
  "stub_env =
     \<lparr>strerror = (\<lambda>e. ''system error''),
      hci_open_dev = (\<lambda>d. Inr 3),
      hci_send_req = (\<lambda>dd rq t. Inr \<lparr>rp_status = 0, rp_enable = 0\<rparr>),
      hci_devinfo = (\<lambda>d. Inr [0, 0, 0, 0, 0, 1]),
      hci_devid = (\<lambda>a. 0),
      hci_get_route = - 1,
      ba2str = (\<lambda>a. ''00:00:00:00:00:00''),
      str2ba = (\<lambda>a. [0, 0, 0, 0, 0, 2]),
      batostr = (\<lambda>a. ''00:00:00:00:00:00''),
      baswap = rev,
      textfile_get = (\<lambda>f k. None),
      malloc = (\<lambda>b. True),
      dbus_bus_get = True,
      dbus_bus_request_name = True,
      dbus_connection_add_filter = True,
      dbus_connection_register = (\<lambda>p. True),
      dbus_connection_unregister_object_path = (\<lambda>p. True),
      dbus_connection_get_object_path_data = (\<lambda>p. True),
      dbus_message_new = True,
      dbus_connection_send = (\<lambda>m. True),
      dbus_connection_send_with_reply = (\<lambda>m. True),
      dbus_pending_call_set_notify = True,
      fresh_path_data = 0,
      uninitialised_uint8 = 0,
      uninitialised_string = []\<rparr>"

definition sample_state :: hcid where
  "sample_state =
     \<lparr>connection = True, default_dev = - 1, object_paths = Map.empty, trace = []\<rparr>"

definition sample_call :: "string \<Rightarrow> dbus_arg list \<Rightarrow> method_call" where
  "sample_call m as =
     \<lparr>call_serial = 7, call_destination = ''org.bluez'', call_path = ''/org/bluez/Device/hci0'',
      call_interface = Some ''org.bluez.Device'', call_member = m, call_args = as\<rparr>"

definition sample_data :: "32 word \<Rightarrow> hci_dbus_data" where
  "sample_data m = \<lparr>dev_id = 0, path_id = 2, path_data = m\<rparr>"

subsection \<open>Notions used to state the properties\<close>

text \<open>
  The local errors form a class of their own: each code of \<open>dbus_error_array\<close> is
  non-zero, carries the bit of the local class and not that of the system class, and no
  two entries share a code.
\<close>

definition local_errors_ok :: "macros \<Rightarrow> bool" where
  "local_errors_ok K =
     ((\<forall>e \<in> set (dbus_error_array K).
         code e \<noteq> 0 \<and> code e AND BLUEZ_ESYSTEM_OFFSET K = 0 \<and> code e AND BLUEZ_EDBUS_OFFSET K \<noteq> 0)
      \<and> distinct (map code (dbus_error_array K)))"

text \<open>The failure reply to a call: an error message named \<open>ERROR_INTERFACE\<close> whose
  arguments are the text and the code.\<close>

definition failure_reply :: "macros \<Rightarrow> method_call \<Rightarrow> string \<Rightarrow> 32 word \<Rightarrow> dbus_message" where
  "failure_reply K msg text ecode =
     Error_message (call_serial msg) (ERROR_INTERFACE K)
       [DBUS_TYPE_STRING text, DBUS_TYPE_UINT32 ecode]"

text \<open>The table the lookup scans for a code outside the system class.\<close>

definition error_table :: "macros \<Rightarrow> 32 word \<Rightarrow> bluez_error_t list" where
  "error_table K ecode =
     (if ecode AND BLUEZ_EDBUS_OFFSET K \<noteq> 0 then dbus_error_array K else hci_error_array K)"

definition mode_reply :: "method_call \<Rightarrow> 8 word \<Rightarrow> dbus_message option" where
  "mode_reply msg m = Some (Method_return (call_serial msg) [DBUS_TYPE_BYTE m])"

text \<open>The scan-enable query of \<open>hcid_dbus_register_device\<close> fails: the controller does
  not open, or the request fails, or the controller answers with a non-zero status.\<close>

definition scan_query_fails :: "env \<Rightarrow> 16 word \<Rightarrow> bool" where
  "scan_query_fails env id' =
     (case hci_open_dev env (uint id') of
        Inl errno \<Rightarrow> True
      | Inr dd \<Rightarrow>
          (case hci_send_req env dd read_scan_enable 500 of
             Inl errno \<Rightarrow> True
           | Inr rp \<Rightarrow> rp_status rp \<noteq> 0))"

text \<open>Some entry of a table has the name of the call; some entry has its name and its
  signature.\<close>

definition name_match :: "service_data list \<Rightarrow> method_call \<Rightarrow> bool" where
  "name_match tbl msg = (\<exists>h \<in> set tbl. name h = call_member msg)"

definition full_match :: "service_data list \<Rightarrow> method_call \<Rightarrow> bool" where
  "full_match tbl msg =
     (\<exists>h \<in> set tbl. name h = call_member msg \<and> signature h = dbus_message_get_signature msg)"

text \<open>
  The entries of a table that have the name of the call, and those that have its name and
  its signature, in the order of the table. \<open>call_rows\<close> runs the functions of a list
  of entries one after the other on the state that the one before has left, and keeps the
  reply of the last. \<open>deliver\<close> is what a message function does with the reply of a
  table function when no error is left: it sends the reply, if there is one, and reports
  the call as handled.
\<close>

definition named_rows :: "service_data list \<Rightarrow> method_call \<Rightarrow> service_data list" where
  "named_rows tbl msg = filter (\<lambda>h. name h = call_member msg) tbl"

definition matching_rows :: "service_data list \<Rightarrow> method_call \<Rightarrow> service_data list" where
  "matching_rows tbl msg =
     filter (\<lambda>h. name h = call_member msg \<and> signature h = dbus_message_get_signature msg) tbl"

definition call_rows ::
  "(handler \<Rightarrow> service_handler_func_t) \<Rightarrow> service_data list \<Rightarrow> method_call \<Rightarrow>
   hci_dbus_data \<Rightarrow> dbus_message option \<times> hcid \<Rightarrow> dbus_message option \<times> hcid" where
  "call_rows call rows msg data rs =
     fold (\<lambda>h rs'. call (handler_func h) msg data (snd rs')) rows rs"

definition deliver :: "dbus_message option \<times> hcid \<Rightarrow> DBusHandlerResult \<times> hcid" where
  "deliver rs =
     (case rs of
        (None, s) \<Rightarrow> (DBUS_HANDLER_RESULT_HANDLED, s)
      | (Some reply, s) \<Rightarrow> (DBUS_HANDLER_RESULT_HANDLED, emit (Dbus_connection_send reply) s))"

text \<open>The value of the local \<open>error\<close> when the loop of a message function ends.\<close>

definition device_error ::
  "macros \<Rightarrow> (handler \<Rightarrow> service_handler_func_t) \<Rightarrow> method_call \<Rightarrow> hci_dbus_data \<Rightarrow> hcid \<Rightarrow> 32 word" where
  "device_error K call msg data s =
     fst (snd (msg_func_device_loop K call (dev_services K) msg data
       (DBUS_HANDLER_RESULT_NOT_YET_HANDLED, BLUEZ_EDBUS_UNKNOWN_METHOD K, None, s)))"

definition manager_error ::
  "macros \<Rightarrow> (handler \<Rightarrow> service_handler_func_t) \<Rightarrow> method_call \<Rightarrow> hci_dbus_data \<Rightarrow> hcid \<Rightarrow> 32 word" where
  "manager_error K call msg data s =
     fst (snd (msg_func_manager_loop K call (mgr_services K) msg data
       (DBUS_HANDLER_RESULT_NOT_YET_HANDLED, BLUEZ_EDBUS_UNKNOWN_METHOD K, None, s)))"

definition wrong_signature_reply :: "macros \<Rightarrow> method_call \<Rightarrow> dbus_message" where
  "wrong_signature_reply K msg =
     failure_reply K msg ''Wrong method signature'' (BLUEZ_EDBUS_WRONG_SIGNATURE K)"

definition unknown_method_reply :: "macros \<Rightarrow> method_call \<Rightarrow> dbus_message" where
  "unknown_method_reply K msg =
     failure_reply K msg ''Method not found'' (BLUEZ_EDBUS_UNKNOWN_METHOD K)"

definition unknown_path_reply :: "macros \<Rightarrow> method_call \<Rightarrow> dbus_message" where
  "unknown_path_reply K msg =
     failure_reply K msg ''Unknown D-BUS path'' (BLUEZ_EDBUS_UNKNOWN_PATH K)"

text \<open>
  In \<open>sample_macros\<close> a signature macro stands for its own name, which is the
  signature of no call. \<open>typed_macros\<close> gives three of them a signature that a call
  can have: no argument for GetMode and for DefaultDevice, one byte for SetMode.
\<close>

definition typed_macros :: macros where
  "typed_macros =
     sample_macros\<lparr>SERVICE :=
       (\<lambda>m. if m = ''DEV_GET_MODE_SIGNATURE'' \<or> m = ''MGR_DEFAULT_DEVICE_SIGNATURE'' then []
            else if m = ''DEV_SET_MODE_SIGNATURE'' then ''y''
            else m)\<rparr>"

definition manager_call :: "string \<Rightarrow> dbus_arg list \<Rightarrow> method_call" where
  "manager_call m as =
     \<lparr>call_serial = 7, call_destination = ''org.bluez'', call_path = ''/org/bluez/Manager'',
      call_interface = Some ''org.bluez.Manager'', call_member = m, call_args = as\<rparr>"

text \<open>The functions behind the table entries in the closed examples: the embedded ones,
  and "not implemented" for the rest.\<close>

definition sample_handlers :: "handler \<Rightarrow> service_handler_func_t" where
  "sample_handlers =
     service_handler sample_macros stub_env (\<lambda>h. not_implemented sample_macros stub_env)"

definition typed_handlers :: "handler \<Rightarrow> service_handler_func_t" where
  "typed_handlers =
     service_handler typed_macros stub_env (\<lambda>h. not_implemented typed_macros stub_env)"

text \<open>A reply of the agent that carries a PIN: not an error, and its first argument is a
  string.\<close>

definition is_pin_reply_message :: "dbus_message \<Rightarrow> bool" where
  "is_pin_reply_message m =
     (dbus_message_get_type m \<noteq> DBUS_MESSAGE_TYPE_ERROR
      \<and> (case message_args m of DBUS_TYPE_STRING pin # rest \<Rightarrow> True | _ \<Rightarrow> False))"

text \<open>The failure reply for a system error \<open>errno\<close>: its code is the errno in the system
  class, its text what \<open>strerror\<close> gives for the code without the class bit.\<close>

definition system_error_reply :: "macros \<Rightarrow> env \<Rightarrow> method_call \<Rightarrow> int \<Rightarrow> dbus_message" where
  "system_error_reply K env msg errno =
     failure_reply K msg
       (strerror env (NOT (BLUEZ_ESYSTEM_OFFSET K) AND (BLUEZ_ESYSTEM_OFFSET K OR word_of_int errno)))
       (BLUEZ_ESYSTEM_OFFSET K OR word_of_int errno)"

text \<open>The name the cache holds for a peer of a controller, as \<open>get_device_name\<close> reads it.\<close>

definition cached_name :: "macros \<Rightarrow> env \<Rightarrow> bdaddr_t \<Rightarrow> bdaddr_t \<Rightarrow> string option" where
  "cached_name K env local peer =
     textfile_get env
       (take (PATH_MAX K - 1) (STORAGEDIR K @ ''/'' @ ba2str env local @ ''/names''))
       (ba2str env peer)"

definition remote_name_signal :: "macros \<Rightarrow> int \<Rightarrow> string \<Rightarrow> string \<Rightarrow> dbus_message" where
  "remote_name_signal K devid peer_str nm =
     Signal (device_path K devid) (DEVICE_INTERFACE K) (DEV_SIG_REMOTE_NAME K)
       [DBUS_TYPE_STRING peer_str, DBUS_TYPE_STRING nm]"

text \<open>Environments for the closed examples: one whose controllers do not open (errno 19
  is \<open>ENODEV\<close>), one where the bus library refuses to unregister a path; and the state
  after controller 0 has been registered on the stub environment.\<close>

definition no_device_env :: env where
  "no_device_env = stub_env\<lparr>hci_open_dev := (\<lambda>d. Inl 19)\<rparr>"

definition no_unregister_env :: env where
  "no_unregister_env = stub_env\<lparr>dbus_connection_unregister_object_path := (\<lambda>p. False)\<rparr>"

definition registered_state :: hcid where
  "registered_state =
     (case hcid_dbus_register_device sample_macros stub_env 0 sample_state of
        Inl f \<Rightarrow> sample_state
      | Inr (ret, s) \<Rightarrow> s)"

text \<open>The request for a PIN gets as far as its allocation: there is a connection (or
  one can be set up) and the message is allocated. The call to the PIN agent goes out:
  the request is allocated as well and the bus library accepts the message. The call is
  answered: it goes out and the notify function is installed.\<close>

definition pin_request_prepared :: "macros \<Rightarrow> env \<Rightarrow> hcid \<Rightarrow> bool" where
  "pin_request_prepared K env s =
     ((connection s \<or> fst (hcid_dbus_init K env s)) \<and> dbus_message_new env)"

definition pin_request_goes_out :: "macros \<Rightarrow> env \<Rightarrow> hci_conn_info \<Rightarrow> hcid \<Rightarrow> bool" where
  "pin_request_goes_out K env ci s =
     (pin_request_prepared K env s
      \<and> malloc env Pin_request_block
      \<and> dbus_connection_send_with_reply env (pin_request_message K ci))"

definition pin_request_answered :: "macros \<Rightarrow> env \<Rightarrow> hci_conn_info \<Rightarrow> hcid \<Rightarrow> bool" where
  "pin_request_answered K env ci s =
     (pin_request_goes_out K env ci s \<and> dbus_pending_call_set_notify env)"

text \<open>The PIN that a reply of the agent carries.\<close>

definition pin_of :: "dbus_message \<Rightarrow> string" where
  "pin_of m = (case message_args m of DBUS_TYPE_STRING pin # rest \<Rightarrow> pin | _ \<Rightarrow> [])"

definition pin_code_reply :: "pin_request \<Rightarrow> string \<Rightarrow> effect" where
  "pin_code_reply req pin =
     Hci_send_cmd (dev req) OGF_LINK_CTL OCF_PIN_CODE_REPLY
       (Pin_code_reply_cp (bda req) (of_nat (length pin)) (map of_char pin))"

text \<open>Environments for the closed examples on PIN requests: the state of a daemon that
  has no bus connection, and an environment in which none can be had.\<close>

definition disconnected_state :: hcid where
  "disconnected_state = sample_state\<lparr>connection := False\<rparr>"

definition no_bus_env :: env where
  "no_bus_env = stub_env\<lparr>dbus_bus_get := False\<rparr>"

definition sample_conn :: hci_conn_info where
  "sample_conn = \<lparr>bdaddr = [0, 0, 0, 0, 0, 2], out = True\<rparr>"

text \<open>An environment in which \<open>malloc\<close> has no memory for a PIN request, one in
  which the bus library registers no object path, and a PIN of 17 characters.\<close>

definition no_request_memory_env :: env where
  "no_request_memory_env = stub_env\<lparr>malloc := (\<lambda>b. b \<noteq> Pin_request_block)\<rparr>"

definition no_register_env :: env where
  "no_register_env = stub_env\<lparr>dbus_connection_register := (\<lambda>p. False)\<rparr>"

definition long_pin :: string where
  "long_pin = ''12345678901234567''"

text \<open>An environment whose name cache knows every peer as "Alice".\<close>

definition alice_env :: env where
  "alice_env = stub_env\<lparr>textfile_get := (\<lambda>f k. Some ''Alice'')\<rparr>"

section \<open>Properties\<close>

subsection \<open>Failure replies for the local errors\<close>

lemma error_scan_absent:
  "ecode \<notin> code ` set tbl \<Longrightarrow> error_scan tbl ecode = None"
  by (induction tbl) auto

lemma error_scan_present:
  "0 \<notin> code ` set tbl \<Longrightarrow> distinct (map code tbl) \<Longrightarrow> e \<in> set tbl \<Longrightarrow>
   error_scan tbl (code e) = Some (str e)"
  by (induction tbl) (auto simp: image_iff)

lemma local_failure_msg:
  assumes ok: "local_errors_ok K" and e: "e \<in> set (dbus_error_array K)"
  shows "bluez_new_failure_msg K env msg (code e) = Some (failure_reply K msg (str e) (code e))"
proof -
  from ok e have c: "code e AND BLUEZ_ESYSTEM_OFFSET K = 0" "code e AND BLUEZ_EDBUS_OFFSET K \<noteq> 0"
    by (auto simp: local_errors_ok_def)
  from ok have z: "0 \<notin> code ` set (dbus_error_array K)" and d: "distinct (map code (dbus_error_array K))"
    by (auto simp: local_errors_ok_def)
  have "error_scan (dbus_error_array K) (code e) = Some (str e)"
    by (rule error_scan_present [OF z d e])
  with c show ?thesis
    by (simp add: bluez_new_failure_msg_def bluez_dbus_error_to_str_def failure_reply_def
        dbus_message_new_error_def)
qed

lemma wrong_signature_msg:
  "local_errors_ok K \<Longrightarrow> bluez_new_failure_msg K env msg (BLUEZ_EDBUS_WRONG_SIGNATURE K) =
     Some (failure_reply K msg ''Wrong method signature'' (BLUEZ_EDBUS_WRONG_SIGNATURE K))"
  using local_failure_msg [of K "\<lparr>code = BLUEZ_EDBUS_WRONG_SIGNATURE K, str = ''Wrong method signature''\<rparr>" env msg]
  by (simp add: dbus_error_array_def)

lemma unknown_method_msg:
  "local_errors_ok K \<Longrightarrow> bluez_new_failure_msg K env msg (BLUEZ_EDBUS_UNKNOWN_METHOD K) =
     Some (failure_reply K msg ''Method not found'' (BLUEZ_EDBUS_UNKNOWN_METHOD K))"
  using local_failure_msg [of K "\<lparr>code = BLUEZ_EDBUS_UNKNOWN_METHOD K, str = ''Method not found''\<rparr>" env msg]
  by (simp add: dbus_error_array_def)

lemma unknown_path_msg:
  "local_errors_ok K \<Longrightarrow> bluez_new_failure_msg K env msg (BLUEZ_EDBUS_UNKNOWN_PATH K) =
     Some (failure_reply K msg ''Unknown D-BUS path'' (BLUEZ_EDBUS_UNKNOWN_PATH K))"
  using local_failure_msg [of K "\<lparr>code = BLUEZ_EDBUS_UNKNOWN_PATH K, str = ''Unknown D-BUS path''\<rparr>" env msg]
  by (simp add: dbus_error_array_def)

lemma local_codes:
  assumes "local_errors_ok K"
  shows "BLUEZ_EDBUS_WRONG_SIGNATURE K \<noteq> 0" "BLUEZ_EDBUS_UNKNOWN_METHOD K \<noteq> 0"
    "BLUEZ_EDBUS_UNKNOWN_PATH K \<noteq> 0"
    "BLUEZ_EDBUS_WRONG_SIGNATURE K \<noteq> BLUEZ_EDBUS_UNKNOWN_METHOD K"
  using assms by (auto simp: local_errors_ok_def dbus_error_array_def)

lemma sample_local_errors_ok: "local_errors_ok sample_macros"
  by (simp add: local_errors_ok_def dbus_error_array_def sample_macros_def)

subsection \<open>The sample values\<close>

lemma sample_macros_simps [simp]:
  "BLUEZ_EBT_OFFSET sample_macros = 0"
  "BLUEZ_EDBUS_OFFSET sample_macros = 0x10000"
  "BLUEZ_ESYSTEM_OFFSET sample_macros = 0x20000"
  "BLUEZ_EDBUS_UNKNOWN_METHOD sample_macros = 0x10001"
  "BLUEZ_EDBUS_WRONG_SIGNATURE sample_macros = 0x10002"
  "BLUEZ_EDBUS_WRONG_PARAM sample_macros = 0x10003"
  "BLUEZ_EDBUS_RECORD_NOT_FOUND sample_macros = 0x10004"
  "BLUEZ_EDBUS_NO_MEM sample_macros = 0x10005"
  "BLUEZ_EDBUS_CONN_NOT_FOUND sample_macros = 0x10006"
  "BLUEZ_EDBUS_UNKNOWN_PATH sample_macros = 0x10007"
  "BLUEZ_EDBUS_NOT_IMPLEMENTED sample_macros = 0x10008"
  "BLUEZ_ESYSTEM_ENODEV sample_macros = 0x20013"
  "MANAGER_ROOT_ID sample_macros = 0"
  "DEVICE_ROOT_ID sample_macros = 1"
  "DEVICE_PATH_ID sample_macros = 2"
  "INVALID_DEV_ID sample_macros = 0xFFFF"
  "MODE_OFF sample_macros = 0"
  "MODE_CONNECTABLE sample_macros = 1"
  "MODE_DISCOVERABLE sample_macros = 2"
  "SCAN_DISABLED sample_macros = 0"
  "SCAN_INQUIRY sample_macros = 1"
  "SCAN_PAGE sample_macros = 2"
  "BASE_PATH sample_macros = ''/org/bluez''"
  "BASE_INTERFACE sample_macros = ''org.bluez''"
  "DEVICE_PATH sample_macros = ''/org/bluez/Device''"
  "DEVICE_INTERFACE sample_macros = ''org.bluez.Device''"
  "MANAGER_PATH sample_macros = ''/org/bluez/Manager''"
  "MANAGER_INTERFACE sample_macros = ''org.bluez.Manager''"
  "ERROR_INTERFACE sample_macros = ''org.bluez.Error''"
  "BLUEZ_MGR_DEV_ADDED sample_macros = ''DeviceAdded''"
  "BLUEZ_MGR_DEV_REMOVED sample_macros = ''DeviceRemoved''"
  "DEV_SIG_REMOTE_NAME sample_macros = ''RemoteName''"
  "DEV_SIG_MODE_CHANGED sample_macros = ''ModeChanged''"
  "SERVICE sample_macros m = m"
  "STORAGEDIR sample_macros = ''/var/lib/bluetooth''"
  "PATH_MAX sample_macros = 4096"
  by (simp_all add: sample_macros_def)

lemma stub_env_simps [simp]:
  "strerror stub_env e = ''system error''"
  "hci_open_dev stub_env d = Inr 3"
  "hci_send_req stub_env dd rq t = Inr \<lparr>rp_status = 0, rp_enable = 0\<rparr>"
  "hci_devinfo stub_env d = Inr [0, 0, 0, 0, 0, 1]"
  "hci_devid stub_env a = 0"
  "hci_get_route stub_env = - 1"
  "ba2str stub_env b = ''00:00:00:00:00:00''"
  "str2ba stub_env a = [0, 0, 0, 0, 0, 2]"
  "batostr stub_env b = ''00:00:00:00:00:00''"
  "baswap stub_env = rev"
  "textfile_get stub_env f k = None"
  "malloc stub_env blk"
  "dbus_bus_get stub_env"
  "dbus_bus_request_name stub_env"
  "dbus_connection_add_filter stub_env"
  "dbus_connection_register stub_env p"
  "dbus_connection_unregister_object_path stub_env p"
  "dbus_connection_get_object_path_data stub_env p"
  "dbus_message_new stub_env"
  "dbus_connection_send stub_env m"
  "dbus_connection_send_with_reply stub_env m"
  "dbus_pending_call_set_notify stub_env"
  "fresh_path_data stub_env = 0"
  "uninitialised_uint8 stub_env = 0"
  "uninitialised_string stub_env = []"
  by (simp_all add: stub_env_def)

lemma sample_state_simps [simp]:
  "connection sample_state"
  "default_dev sample_state = - 1"
  "object_paths sample_state = Map.empty"
  "trace sample_state = []"
  by (simp_all add: sample_state_def)

lemma sample_call_simps [simp]:
  "call_serial (sample_call m as) = 7"
  "call_interface (sample_call m as) = Some ''org.bluez.Device''"
  "call_member (sample_call m as) = m"
  "call_args (sample_call m as) = as"
  by (simp_all add: sample_call_def)

lemma sample_data_simps [simp]:
  "dev_id (sample_data m) = 0"
  "path_id (sample_data m) = 2"
  "path_data (sample_data m) = m"
  by (simp_all add: sample_data_def)

lemma no_device_env_simps [simp]:
  "hci_open_dev no_device_env d = Inl 19"
  "hci_devinfo no_device_env d = Inr [0, 0, 0, 0, 0, 1]"
  "str2ba no_device_env a = [0, 0, 0, 0, 0, 2]"
  "ba2str no_device_env b = ''00:00:00:00:00:00''"
  "textfile_get no_device_env f k = None"
  "strerror no_device_env e = ''system error''"
  "malloc no_device_env blk"
  "dbus_connection_register no_device_env p"
  "dbus_connection_get_object_path_data no_device_env p"
  "dbus_message_new no_device_env"
  "dbus_connection_send no_device_env m"
  "fresh_path_data no_device_env = 0"
  by (simp_all add: no_device_env_def)

lemma no_unregister_env_simps [simp]:
  "\<not> dbus_connection_unregister_object_path no_unregister_env p"
  "hci_get_route no_unregister_env = - 1"
  "dbus_message_new no_unregister_env"
  "dbus_connection_send no_unregister_env m"
  by (simp_all add: no_unregister_env_def)

lemma no_register_env_simps [simp]:
  "\<not> dbus_connection_register no_register_env p"
  "malloc no_register_env blk"
  "hci_open_dev no_register_env d = Inr 3"
  "hci_send_req no_register_env dd rq t = Inr \<lparr>rp_status = 0, rp_enable = 0\<rparr>"
  "dbus_connection_get_object_path_data no_register_env p"
  "dbus_message_new no_register_env"
  "dbus_connection_send no_register_env m"
  "fresh_path_data no_register_env = 0"
  by (simp_all add: no_register_env_def)

lemma no_request_memory_env_simps [simp]:
  "malloc no_request_memory_env blk = (blk \<noteq> Pin_request_block)"
  "dbus_message_new no_request_memory_env"
  "dbus_connection_send_with_reply no_request_memory_env m"
  "dbus_pending_call_set_notify no_request_memory_env"
  by (simp_all add: no_request_memory_env_def)

lemma dec_digit: "n < 10 \<Longrightarrow> dec n = [''0123456789'' ! n]"
  by (simp add: dec.simps)

lemma device_path_sample_0 [simp]: "device_path sample_macros 0 = ''/org/bluez/Device/hci0''"
  by (simp add: device_path_def printf_d_def dec_digit MAX_PATH_LENGTH_def)

lemma sample_error_table: "error_table sample_macros 0x10001 = dbus_error_array sample_macros"
  by (simp add: error_table_def)

subsection \<open>The loops of the message functions\<close>

lemma device_loop_no_name:
  "\<forall>h \<in> set tbl. name h \<noteq> call_member msg \<Longrightarrow>
   msg_func_device_loop K call tbl msg data (ret, error, reply, s) = (ret, error, reply, s)"
  by (induction tbl) auto

lemma device_loop_no_signature:
  "\<forall>h \<in> set tbl. name h = call_member msg \<longrightarrow> signature h \<noteq> dbus_message_get_signature msg \<Longrightarrow>
   msg_func_device_loop K call tbl msg data (ret, error, reply, s) =
     (if \<exists>h \<in> set tbl. name h = call_member msg
      then (DBUS_HANDLER_RESULT_HANDLED, BLUEZ_EDBUS_WRONG_SIGNATURE K, reply, s)
      else (ret, error, reply, s))"
proof (induction tbl arbitrary: ret error)
  case Nil
  then show ?case by simp
next
  case (Cons h tbl)
  then show ?case by auto
qed

lemma device_loop_named:
  "\<exists>h \<in> set tbl. name h = call_member msg \<Longrightarrow>
   fst (snd (msg_func_device_loop K call tbl msg data (ret, error, reply, s)))
     \<in> {0, BLUEZ_EDBUS_WRONG_SIGNATURE K}"
proof (induction tbl arbitrary: ret error)
  case Nil
  then show ?case by simp
next
  case (Cons h tbl)
  show ?case
  proof (cases "name h = call_member msg")
    case False
    with Cons show ?thesis by auto
  next
    case True
    show ?thesis
    proof (cases "signature h = dbus_message_get_signature msg")
      case True
      with \<open>name h = call_member msg\<close> show ?thesis by (auto split: prod.splits)
    next
      case False
      show ?thesis
      proof (cases "\<exists>h \<in> set tbl. name h = call_member msg")
        case True
        with False \<open>name h = call_member msg\<close> Cons.IH show ?thesis by simp
      next
        case no: False
        then have "\<forall>h \<in> set tbl. name h \<noteq> call_member msg" by blast
        from device_loop_no_name [OF this] False \<open>name h = call_member msg\<close>
        show ?thesis by simp
      qed
    qed
  qed
qed

lemma manager_loop_no_name:
  "\<forall>h \<in> set tbl. name h \<noteq> call_member msg \<Longrightarrow>
   msg_func_manager_loop K call tbl msg data (ret, error, reply, s) = (ret, error, reply, s)"
  by (induction tbl) auto

lemma manager_loop_no_signature:
  "\<forall>h \<in> set tbl. name h = call_member msg \<longrightarrow> signature h \<noteq> dbus_message_get_signature msg \<Longrightarrow>
   msg_func_manager_loop K call tbl msg data (ret, error, reply, s) =
     (if \<exists>h \<in> set tbl. name h = call_member msg
      then (DBUS_HANDLER_RESULT_HANDLED, BLUEZ_EDBUS_WRONG_SIGNATURE K, reply, s)
      else (ret, error, reply, s))"
proof (induction tbl arbitrary: ret error)
  case Nil
  then show ?case by simp
next
  case (Cons h tbl)
  then show ?case by auto
qed

lemma manager_loop_named:
  "\<exists>h \<in> set tbl. name h = call_member msg \<Longrightarrow>
   fst (snd (msg_func_manager_loop K call tbl msg data (ret, error, reply, s)))
     \<in> {0, BLUEZ_EDBUS_WRONG_SIGNATURE K}"
proof (induction tbl arbitrary: ret error reply s)
  case Nil
  then show ?case by simp
next
  case (Cons h tbl)
  show ?case
  proof (cases "name h = call_member msg")
    case False
    with Cons show ?thesis by auto
  next
    case named: True
    obtain r s' where c: "call (handler_func h) msg data s = (r, s')"
      by (cases "call (handler_func h) msg data s")
    show ?thesis
    proof (cases "\<exists>h \<in> set tbl. name h = call_member msg")
      case True
      from Cons.IH [OF True] named c show ?thesis by simp
    next
      case False
      then have "\<forall>h \<in> set tbl. name h \<noteq> call_member msg" by blast
      from manager_loop_no_name [OF this] named c
      show ?thesis by simp
    qed
  qed
qed

lemma matching_rows_named:
  "named_rows tbl msg = [] \<Longrightarrow> matching_rows tbl msg = []"
  by (auto simp: named_rows_def matching_rows_def filter_empty_conv)

lemma device_loop_full:
  "matching_rows tbl msg \<noteq> [] \<Longrightarrow>
   msg_func_device_loop K call tbl msg data (ret, error, reply, s) =
     (case call (handler_func (hd (matching_rows tbl msg))) msg data s of
        (reply', s') \<Rightarrow> (DBUS_HANDLER_RESULT_HANDLED, 0, reply', s'))"
proof (induction tbl arbitrary: ret error)
  case Nil
  then show ?case by (simp add: matching_rows_def)
next
  case (Cons h tbl)
  then show ?case by (auto simp: matching_rows_def)
qed

lemma manager_loop_rows:
  "msg_func_manager_loop K call tbl msg data (ret, error, reply, s) =
     (if named_rows tbl msg = [] then (ret, error, reply, s)
      else case call_rows call (matching_rows tbl msg) msg data (reply, s) of
             (reply', s') \<Rightarrow>
               (DBUS_HANDLER_RESULT_HANDLED,
                if signature (last (named_rows tbl msg)) = dbus_message_get_signature msg
                then 0 else BLUEZ_EDBUS_WRONG_SIGNATURE K,
                reply', s'))"
proof (induction tbl arbitrary: ret error reply s)
  case Nil
  then show ?case by (simp add: named_rows_def)
next
  case (Cons h tbl)
  show ?case
  proof (cases "name h = call_member msg")
    case False
    with Cons show ?thesis by (simp add: named_rows_def matching_rows_def)
  next
    case named: True
    show ?thesis
    proof (cases "signature h = dbus_message_get_signature msg")
      case False
      with named Cons [of DBUS_HANDLER_RESULT_HANDLED "BLUEZ_EDBUS_WRONG_SIGNATURE K" reply s]
        matching_rows_named [of tbl msg]
      show ?thesis
        by (auto simp: named_rows_def matching_rows_def call_rows_def)
    next
      case True
      obtain r s' where c: "call (handler_func h) msg data s = (r, s')"
        by (cases "call (handler_func h) msg data s")
      with True named Cons [of DBUS_HANDLER_RESULT_HANDLED 0 r s']
        matching_rows_named [of tbl msg]
      show ?thesis
        by (auto simp: named_rows_def matching_rows_def call_rows_def)
    qed
  qed
qed

subsection \<open>What the registry functions leave alone\<close>

lemma emit_simps [simp]:
  "object_paths (emit e s) = object_paths s"
  "default_dev (emit e s) = default_dev s"
  "connection (emit e s) = connection s"
  "trace (emit e s) = trace s @ [e]"
  by (simp_all add: emit_def)

lemma manager_signal_simps [simp]:
  "object_paths (manager_signal K env n p s) = object_paths s"
  "default_dev (manager_signal K env n p s) = default_dev s"
  by (simp_all add: manager_signal_def Let_def)

lemma close_dev_simps [simp]:
  "object_paths (close_dev dd s) = object_paths s"
  "default_dev (close_dev dd s) = default_dev s"
  by (simp_all add: close_dev_def split: option.splits)

lemma register_device_scan_simps [simp]:
  "object_paths (snd (snd (register_device_scan K env i s))) = object_paths s"
  "default_dev (snd (snd (register_device_scan K env i s))) = default_dev s"
  by (simp_all add: register_device_scan_def Let_def split: sum.splits)

lemma register_device_scan_fails:
  "scan_query_fails env i \<Longrightarrow>
   fst (snd (register_device_scan K env i s)) = (SCAN_PAGE K OR SCAN_INQUIRY K)"
  by (simp add: register_device_scan_def scan_query_fails_def Let_def split: sum.splits)

lemma register_dbus_path_simps:
  "fst (register_dbus_path env p pid did v fb s) =
     (malloc env Path_data_block \<and> dbus_connection_register env p)"
  "default_dev (snd (register_dbus_path env p pid did v fb s)) = default_dev s"
  "fst (register_dbus_path env p pid did v fb s) \<Longrightarrow>
     object_paths (snd (register_dbus_path env p pid did v fb s)) =
       (object_paths s)(p \<mapsto> \<lparr>dev_id = did, path_id = pid, path_data = fresh_path_data env\<rparr>)"
  by (auto simp: register_dbus_path_def Let_def split: if_splits)

lemma unregister_dbus_path_simps:
  "fst (unregister_dbus_path env p s) = dbus_connection_unregister_object_path env p"
  "default_dev (snd (unregister_dbus_path env p s)) = default_dev s"
  by (simp_all add: unregister_dbus_path_def Let_def)

lemma registered_state_simps [simp]:
  "default_dev registered_state = 0"
  "object_paths registered_state ''/org/bluez/Device/hci0'' =
     Some \<lparr>dev_id = 0, path_id = 2, path_data = 0\<rparr>"
  by (simp_all add: registered_state_def hcid_dbus_register_device_def register_dbus_path_def
      register_device_scan_def keep_scan_status_def Let_def)

lemma register_sample:
  "hcid_dbus_register_device sample_macros stub_env 0 sample_state = Inr (True, registered_state)"
  by (simp add: registered_state_def hcid_dbus_register_device_def register_dbus_path_def
      register_device_scan_def keep_scan_status_def Let_def)

text \<open>
  What \<open>hcid_dbus_register_device\<close> does on every input. It writes through NULL
  exactly when the registration of the path has failed, the lookup of the user data
  succeeds and nothing was registered at the path before. Where it returns, it returns
  what the registration of the path returned, and the default controller changes only
  when the registration succeeded and there was no default. When the registration
  succeeds, the scan-enable query fails (the controller does not open, the request fails,
  or the status is not 0) and the lookup succeeds, it returns success and the user data
  of the path holds the fallback mode \<open>SCAN_PAGE | SCAN_INQUIRY\<close>.
\<close>

lemma register_device_fault:
  "hcid_dbus_register_device K env i s = Inl f \<longleftrightarrow>
     f = NULL_POINTER_WRITE
     \<and> \<not> fst (register_dbus_path env (device_path K (uint i)) (DEVICE_PATH_ID K) i
                 Obj_dev_vtable False s)
     \<and> dbus_connection_get_object_path_data env (device_path K (uint i))
     \<and> object_paths s (device_path K (uint i)) = None"
proof -
  let ?p = "device_path K (uint i)"
  obtain ret s1 where r: "register_dbus_path env ?p (DEVICE_PATH_ID K) i Obj_dev_vtable False s = (ret, s1)"
    by (cases "register_dbus_path env ?p (DEVICE_PATH_ID K) i Obj_dev_vtable False s")
  obtain dd enable s2 where sc: "register_device_scan K env i s1 = (dd, enable, s2)"
    by (cases "register_device_scan K env i s1")
  have s2: "object_paths s2 = object_paths s1"
    using register_device_scan_simps(1) [of K env i s1] sc by simp
  have s1: "object_paths s1 ?p = None \<longleftrightarrow> \<not> ret \<and> object_paths s ?p = None"
    using r by (auto simp: register_dbus_path_def Let_def split: if_splits)
  show ?thesis
    using r sc s1 s2
    by (auto simp: hcid_dbus_register_device_def keep_scan_status_def Let_def
        split: option.splits)
qed

lemma register_device_returns:
  assumes "hcid_dbus_register_device K env i s = Inr (ret, s')"
  shows "ret = fst (register_dbus_path env (device_path K (uint i)) (DEVICE_PATH_ID K) i
                 Obj_dev_vtable False s)"
    and "default_dev s' = (if ret \<and> default_dev s < 0 then uint i else default_dev s)"
proof -
  let ?p = "device_path K (uint i)"
  obtain r s1 where r: "register_dbus_path env ?p (DEVICE_PATH_ID K) i Obj_dev_vtable False s = (r, s1)"
    by (cases "register_dbus_path env ?p (DEVICE_PATH_ID K) i Obj_dev_vtable False s")
  obtain dd enable s2 where sc: "register_device_scan K env i s1 = (dd, enable, s2)"
    by (cases "register_device_scan K env i s1")
  have d1: "default_dev s1 = default_dev s"
    using register_dbus_path_simps(2) [of env ?p "DEVICE_PATH_ID K" i Obj_dev_vtable False s] r
    by simp
  have d2: "default_dev s2 = default_dev s1"
    using register_device_scan_simps(2) [of K env i s1] sc by simp
  from assms r sc show "ret = fst (register_dbus_path env ?p (DEVICE_PATH_ID K) i
                 Obj_dev_vtable False s)"
    by (auto simp: hcid_dbus_register_device_def keep_scan_status_def Let_def
        split: option.splits if_splits)
  from assms r sc d1 d2
  show "default_dev s' = (if ret \<and> default_dev s < 0 then uint i else default_dev s)"
    by (auto simp: hcid_dbus_register_device_def keep_scan_status_def Let_def
        split: option.splits if_splits)
qed

lemma register_device_fallback:
  assumes ok: "fst (register_dbus_path env (device_path K (uint i)) (DEVICE_PATH_ID K) i
                      Obj_dev_vtable False s)"
    and q: "scan_query_fails env i"
    and l: "dbus_connection_get_object_path_data env (device_path K (uint i))"
  shows "\<exists>s'. hcid_dbus_register_device K env i s = Inr (True, s')
           \<and> object_paths s' (device_path K (uint i)) =
               Some \<lparr>dev_id = i, path_id = DEVICE_PATH_ID K,
                     path_data = ucast (SCAN_PAGE K OR SCAN_INQUIRY K)\<rparr>"
proof -
  let ?p = "device_path K (uint i)"
  obtain ret s1 where r: "register_dbus_path env ?p (DEVICE_PATH_ID K) i Obj_dev_vtable False s = (ret, s1)"
    by (cases "register_dbus_path env ?p (DEVICE_PATH_ID K) i Obj_dev_vtable False s")
  obtain dd enable s2 where sc: "register_device_scan K env i s1 = (dd, enable, s2)"
    by (cases "register_device_scan K env i s1")
  have s2: "object_paths s2 = object_paths s1"
    using register_device_scan_simps(1) [of K env i s1] sc by simp
  from register_dbus_path_simps(3) [of env ?p "DEVICE_PATH_ID K" i Obj_dev_vtable False s] r ok
  have e: "object_paths s1 ?p =
          Some \<lparr>dev_id = i, path_id = DEVICE_PATH_ID K, path_data = fresh_path_data env\<rparr>"
    by simp
  from register_device_scan_fails [OF q, of K s1] sc
  have f: "enable = (SCAN_PAGE K OR SCAN_INQUIRY K)" by simp
  from r ok have "ret" by simp
  with r sc s2 e f l show ?thesis
    by (simp add: hcid_dbus_register_device_def keep_scan_status_def Let_def)
qed


subsection \<open>Reading traces\<close>

lemma added_simps [simp]:
  "added s s = []"
  "added s (emit e s) = [e]"
  "added s (emit e2 (emit e1 s)) = [e1, e2]"
  "added s (emit e3 (emit e2 (emit e1 s))) = [e1, e2, e3]"
  by (simp_all add: added_def)

lemma count_simps [simp]:
  "count P [] = 0"
  "count P (e # es) = (if P e then Suc (count P es) else count P es)"
  "count P (xs @ ys) = count P xs + count P ys"
  by (simp_all add: count_def)

lemma is_write_scan_enable_write [simp]:
  "is_write_scan_enable (Hci_send_req dd (write_scan_enable m) t)"
  by (simp add: write_scan_enable_def)

lemma set_mode_success:
  assumes x: "call_args msg = DBUS_TYPE_BYTE x # rest"
    and sw: "set_mode_switch K x = Some raw"
    and opn: "hci_open_dev env (uint (dev_id d)) = Inr dd"
    and req: "\<forall>m. \<exists>rp. hci_send_req env dd (write_scan_enable m) 100 = Inr rp \<and> rp_status rp = 0"
  shows "handle_dev_set_mode_req K env msg d s =
           (Some (dbus_message_new_method_return msg),
            if ucast (path_data d) = raw
            then emit (Hci_close_dev dd) (emit (Hci_open_dev (uint (dev_id d))) s)
            else emit (Hci_close_dev dd)
                   (emit (Hci_send_req dd (write_scan_enable raw) 100)
                      (emit (Hci_open_dev (uint (dev_id d))) s)))"
proof -
  from req obtain rp where "hci_send_req env dd (write_scan_enable raw) 100 = Inr rp"
    "rp_status rp = 0" by blast
  with x sw opn show ?thesis
    by (simp add: handle_dev_set_mode_req_def get_byte_arg_def Let_def)
qed

subsection \<open>Traces of the PIN functions\<close>

lemma pin_effects [simp]:
  "is_pin_code_neg_reply (pin_code_neg_reply d a)"
  "\<not> is_pin_code_reply (pin_code_neg_reply d a)"
  "is_pin_code_reply (pin_code_reply req pin)"
  "\<not> is_pin_code_neg_reply (pin_code_reply req pin)"
  by (simp_all add: pin_code_neg_reply_def pin_code_reply_def)

lemma register_dbus_path_trace:
  "\<exists>xs. trace (snd (register_dbus_path env p pid did v fb s)) = trace s @ xs
        \<and> count is_pin_code_reply xs = 0 \<and> count is_pin_code_neg_reply xs = 0"
  by (simp add: register_dbus_path_def Let_def)

lemma register_dbus_path_connection [simp]:
  "connection (snd (register_dbus_path env p pid did v fb s)) = connection s"
  by (simp add: register_dbus_path_def Let_def)

lemma hcid_dbus_init_trace:
  "\<exists>xs. trace (snd (hcid_dbus_init K env s)) = trace s @ xs
        \<and> count is_pin_code_reply xs = 0 \<and> count is_pin_code_neg_reply xs = 0"
proof -
  let ?s1 = "s\<lparr>connection := True\<rparr>"
  obtain r1 s2 where a: "register_dbus_path env (DEVICE_PATH K) (DEVICE_ROOT_ID K)
      (INVALID_DEV_ID K) Obj_dev_vtable True ?s1 = (r1, s2)"
    by (cases "register_dbus_path env (DEVICE_PATH K) (DEVICE_ROOT_ID K)
      (INVALID_DEV_ID K) Obj_dev_vtable True ?s1")
  obtain r2 s3 where b: "register_dbus_path env (MANAGER_PATH K) (MANAGER_ROOT_ID K)
      (INVALID_DEV_ID K) Obj_mgr_vtable False s2 = (r2, s3)"
    by (cases "register_dbus_path env (MANAGER_PATH K) (MANAGER_ROOT_ID K)
      (INVALID_DEV_ID K) Obj_mgr_vtable False s2")
  from register_dbus_path_trace [of env "DEVICE_PATH K" "DEVICE_ROOT_ID K" "INVALID_DEV_ID K"
      Obj_dev_vtable True ?s1] a
  obtain xs where xs: "trace s2 = trace s @ xs" "count is_pin_code_reply xs = 0"
    "count is_pin_code_neg_reply xs = 0" by auto
  from register_dbus_path_trace [of env "MANAGER_PATH K" "MANAGER_ROOT_ID K" "INVALID_DEV_ID K"
      Obj_mgr_vtable False s2] b
  obtain ys where ys: "trace s3 = trace s2 @ ys" "count is_pin_code_reply ys = 0"
    "count is_pin_code_neg_reply ys = 0" by auto
  have "trace s3 = trace s @ (xs @ ys)" "count is_pin_code_reply (xs @ ys) = 0"
    "count is_pin_code_neg_reply (xs @ ys) = 0"
    using xs ys by simp_all
  then have s3: "\<exists>zs. trace s3 = trace s @ zs \<and> count is_pin_code_reply zs = 0
      \<and> count is_pin_code_neg_reply zs = 0" by blast
  from xs have s2: "\<exists>zs. trace s2 = trace s @ zs \<and> count is_pin_code_reply zs = 0
      \<and> count is_pin_code_neg_reply zs = 0" by blast
  show ?thesis
    using a b s2 s3 by (simp add: hcid_dbus_init_def Let_def)
qed

lemma request_pin_fault:
  assumes "pin_request_prepared K env s" "\<not> malloc env Pin_request_block"
  shows "hcid_dbus_request_pin K env d ci s = Inl NULL_POINTER_WRITE"
proof (cases "connection s")
  case True
  with assms show ?thesis
    by (simp add: hcid_dbus_request_pin_def pin_request_prepared_def)
next
  case False
  obtain ok s1 where i: "hcid_dbus_init K env s = (ok, s1)"
    by (cases "hcid_dbus_init K env s")
  with False assms show ?thesis
    by (simp add: hcid_dbus_request_pin_def pin_request_prepared_def)
qed

lemma request_pin_out:
  assumes "pin_request_goes_out K env ci s"
  shows "\<exists>s' xs. hcid_dbus_request_pin K env d ci s =
             Inr (if dbus_pending_call_set_notify env
                  then Some \<lparr>dev = d, bda = bdaddr ci\<rparr> else None, s')
           \<and> trace s' = trace s @ xs
           \<and> count is_pin_code_reply xs = 0 \<and> count is_pin_code_neg_reply xs = 0"
proof (cases "connection s")
  case True
  with assms show ?thesis
    by (simp add: hcid_dbus_request_pin_def pin_request_goes_out_def pin_request_prepared_def
        Let_def)
next
  case False
  obtain ok s1 where i: "hcid_dbus_init K env s = (ok, s1)"
    by (cases "hcid_dbus_init K env s")
  from hcid_dbus_init_trace [of K env s] i
  obtain xs where "trace s1 = trace s @ xs" "count is_pin_code_reply xs = 0"
    "count is_pin_code_neg_reply xs = 0" by auto
  with False assms i show ?thesis
    by (simp add: hcid_dbus_request_pin_def pin_request_goes_out_def pin_request_prepared_def
        Let_def)
qed

lemma request_pin_not_out:
  assumes "\<not> pin_request_goes_out K env ci s"
    and "pin_request_prepared K env s \<longrightarrow> malloc env Pin_request_block"
  shows "\<exists>s' xs. hcid_dbus_request_pin K env d ci s = Inr (None, s')
           \<and> trace s' = trace s @ xs @ [pin_code_neg_reply d (bdaddr ci)]
           \<and> count is_pin_code_reply xs = 0 \<and> count is_pin_code_neg_reply xs = 0"
proof (cases "connection s")
  case True
  with assms show ?thesis
    by (auto simp: hcid_dbus_request_pin_def pin_request_goes_out_def pin_request_prepared_def
        Let_def)
next
  case False
  obtain ok s1 where i: "hcid_dbus_init K env s = (ok, s1)"
    by (cases "hcid_dbus_init K env s")
  from hcid_dbus_init_trace [of K env s] i
  obtain xs where xs: "trace s1 = trace s @ xs" "count is_pin_code_reply xs = 0"
    "count is_pin_code_neg_reply xs = 0" by auto
  show ?thesis
  proof (cases "ok \<and> dbus_message_new env")
    case True
    with False assms i have "malloc env Pin_request_block"
      "\<not> dbus_connection_send_with_reply env (pin_request_message K ci)"
      by (simp_all add: pin_request_goes_out_def pin_request_prepared_def)
    with True False i xs show ?thesis
      by (simp add: hcid_dbus_request_pin_def Let_def)
  next
    case no: False
    with False i xs show ?thesis
      by (auto simp: hcid_dbus_request_pin_def Let_def)
  qed
qed

lemma reply_handler_result:
  "reply_handler_function req (Some m) s =
     (if is_pin_reply_message m
      then if PIN_CODE_SIZE < length (pin_of m) then Inl BUFFER_OVERFLOW
           else Inr (emit (pin_code_reply req (pin_of m)) s)
      else Inr (emit (pin_code_neg_reply (dev req) (bda req)) s))"
  by (auto simp: reply_handler_function_def is_pin_reply_message_def pin_code_reply_def
      pin_of_def split: list.splits dbus_arg.splits)

text \<open>
  What one authentication event does on every input. It ends in a write through NULL
  when the request gets as far as its allocation and \<open>malloc\<close> has no memory, and in
  a copy past the end of \<open>pin_code\<close> when the call to the agent is answered with a
  PIN of more than 16 bytes. It issues no command at all when the call to the agent went
  out and the notify function was not installed. In every other case it runs to its end
  and has then issued exactly one of the two commands: the PIN-code-reply when the call
  is answered and the reply carries a PIN, the negative reply otherwise (no bus
  connection, no message, a failed send, an error reply, a reply of another shape).
\<close>

lemma pin_event_outcomes:
  "(pin_request_prepared K env s \<and> \<not> malloc env Pin_request_block \<longrightarrow>
      pin_event K env d ci m s = Inl NULL_POINTER_WRITE)
   \<and> (pin_request_answered K env ci s \<and> is_pin_reply_message m
        \<and> PIN_CODE_SIZE < length (pin_of m) \<longrightarrow>
        pin_event K env d ci m s = Inl BUFFER_OVERFLOW)
   \<and> (pin_request_goes_out K env ci s \<and> \<not> dbus_pending_call_set_notify env \<longrightarrow>
        (\<exists>s'. pin_event K env d ci m s = Inr s'
           \<and> count is_pin_code_reply (added s s') = 0
           \<and> count is_pin_code_neg_reply (added s s') = 0))
   \<and> ((pin_request_prepared K env s \<longrightarrow> malloc env Pin_request_block)
        \<and> (pin_request_goes_out K env ci s \<longrightarrow> dbus_pending_call_set_notify env)
        \<and> \<not> (pin_request_answered K env ci s \<and> is_pin_reply_message m
               \<and> PIN_CODE_SIZE < length (pin_of m)) \<longrightarrow>
        (\<exists>s'. pin_event K env d ci m s = Inr s'
           \<and> count is_pin_code_reply (added s s') =
               (if pin_request_answered K env ci s \<and> is_pin_reply_message m then 1 else 0)
           \<and> count is_pin_code_neg_reply (added s s') =
               (if pin_request_answered K env ci s \<and> is_pin_reply_message m then 0 else 1)))"
proof (intro conjI impI)
  assume "pin_request_prepared K env s \<and> \<not> malloc env Pin_request_block"
  with request_pin_fault [of K env s d ci]
  show "pin_event K env d ci m s = Inl NULL_POINTER_WRITE"
    by (simp add: pin_event_def)
next
  assume a: "pin_request_answered K env ci s \<and> is_pin_reply_message m
        \<and> PIN_CODE_SIZE < length (pin_of m)"
  with request_pin_out [of K env ci s d]
  obtain s' where "hcid_dbus_request_pin K env d ci s = Inr (Some \<lparr>dev = d, bda = bdaddr ci\<rparr>, s')"
    by (auto simp: pin_request_answered_def)
  with a show "pin_event K env d ci m s = Inl BUFFER_OVERFLOW"
    by (simp add: pin_event_def reply_handler_result)
next
  assume a: "pin_request_goes_out K env ci s \<and> \<not> dbus_pending_call_set_notify env"
  with request_pin_out [of K env ci s d]
  obtain s1 xs where r: "hcid_dbus_request_pin K env d ci s = Inr (None, s1)"
    "trace s1 = trace s @ xs" "count is_pin_code_reply xs = 0"
    "count is_pin_code_neg_reply xs = 0"
    by auto
  then show "\<exists>s'. pin_event K env d ci m s = Inr s'
           \<and> count is_pin_code_reply (added s s') = 0
           \<and> count is_pin_code_neg_reply (added s s') = 0"
    by (simp add: pin_event_def added_def)
next
  assume a: "(pin_request_prepared K env s \<longrightarrow> malloc env Pin_request_block)
        \<and> (pin_request_goes_out K env ci s \<longrightarrow> dbus_pending_call_set_notify env)
        \<and> \<not> (pin_request_answered K env ci s \<and> is_pin_reply_message m
               \<and> PIN_CODE_SIZE < length (pin_of m))"
  show "\<exists>s'. pin_event K env d ci m s = Inr s'
           \<and> count is_pin_code_reply (added s s') =
               (if pin_request_answered K env ci s \<and> is_pin_reply_message m then 1 else 0)
           \<and> count is_pin_code_neg_reply (added s s') =
               (if pin_request_answered K env ci s \<and> is_pin_reply_message m then 0 else 1)"
  proof (cases "pin_request_goes_out K env ci s")
    case True
    with a have n: "dbus_pending_call_set_notify env" by simp
    from request_pin_out [OF True, of d] n
    obtain s1 xs where r: "hcid_dbus_request_pin K env d ci s = Inr (Some \<lparr>dev = d, bda = bdaddr ci\<rparr>, s1)"
      "trace s1 = trace s @ xs" "count is_pin_code_reply xs = 0"
      "count is_pin_code_neg_reply xs = 0"
      by auto
    with True n a show ?thesis
      by (auto simp: pin_event_def reply_handler_result added_def pin_request_answered_def)
  next
    case False
    from request_pin_not_out [OF False, of d] a
    obtain s1 xs where r: "hcid_dbus_request_pin K env d ci s = Inr (None, s1)"
      "trace s1 = trace s @ xs @ [pin_code_neg_reply d (bdaddr ci)]"
      "count is_pin_code_reply xs = 0" "count is_pin_code_neg_reply xs = 0"
      by blast
    with False show ?thesis
      by (simp add: pin_event_def added_def pin_request_answered_def)
  qed
qed

subsection \<open>Helpers for the remote-name request\<close>

lemma get_device_name_cached:
  "get_device_name K env local peer s =
     (cached_name K env local peer,
      emit (Textfile_get (take (PATH_MAX K - 1) (STORAGEDIR K @ ''/'' @ ba2str env local @ ''/names''))
              (ba2str env peer)) s)"
  by (simp add: get_device_name_def cached_name_def Let_def)

lemma system_failure_msg:
  "BLUEZ_ESYSTEM_OFFSET K \<noteq> 0 \<Longrightarrow>
   bluez_new_failure_msg K env msg (BLUEZ_ESYSTEM_OFFSET K OR word_of_int e) =
     Some (system_error_reply K env msg e)"
  by (simp add: bluez_new_failure_msg_def bluez_dbus_error_to_str_def system_error_reply_def
      failure_reply_def dbus_message_new_error_def word_ao_absorbs)

lemma is_remote_name_req_simps [simp]:
  "is_remote_name_req (Hci_send_req dd (remote_name_req a) t)"
  by (simp add: remote_name_req_def)

lemma sample_dev_table:
  "name_match (dev_services sample_macros) (sample_call ''DEV_SET_MODE'' as)"
  "\<not> full_match (dev_services sample_macros) (sample_call ''DEV_SET_MODE'' [DBUS_TYPE_STRING ''on''])"
  by (simp_all add: name_match_def full_match_def dev_services_def dbus_message_get_signature_def)

lemma sample_mgr_table:
  "name_match (mgr_services sample_macros) (sample_call ''MGR_DEFAULT_DEVICE'' as)"
  "\<not> full_match (mgr_services sample_macros)
       (sample_call ''MGR_DEFAULT_DEVICE'' [DBUS_TYPE_BYTE 1])"
  "name_match (mgr_services sample_macros)
     ((sample_call ''MGR_DEFAULT_DEVICE'' as)\<lparr>call_interface := i\<rparr>)"
  "\<not> full_match (mgr_services sample_macros)
       ((sample_call ''MGR_DEFAULT_DEVICE'' [DBUS_TYPE_BYTE 1])\<lparr>call_interface := i\<rparr>)"
  by (simp_all add: name_match_def full_match_def mgr_services_def dbus_message_get_signature_def)

lemma sample_no_name:
  "\<not> name_match (dev_services sample_macros) (sample_call ''Unknown'' as)"
  "\<not> name_match (mgr_services sample_macros) (manager_call ''Unknown'' as)"
  "call_interface (manager_call m as) = Some (MANAGER_INTERFACE sample_macros)"
  by (simp_all add: name_match_def dev_services_def mgr_services_def manager_call_def)

lemma typed_macros_simps [simp]:
  "SERVICE typed_macros ''DEV_GET_MODE_SIGNATURE'' = []"
  "SERVICE typed_macros ''MGR_DEFAULT_DEVICE_SIGNATURE'' = []"
  "SERVICE typed_macros ''DEV_SET_MODE_SIGNATURE'' = ''y''"
  "SERVICE typed_macros ''DEV_GET_MODE'' = ''DEV_GET_MODE''"
  "SERVICE typed_macros ''MGR_DEFAULT_DEVICE'' = ''MGR_DEFAULT_DEVICE''"
  "SERVICE typed_macros ''MGR_DEVICE_LIST'' = ''MGR_DEVICE_LIST''"
  "path_id (sample_data m) \<noteq> DEVICE_ROOT_ID typed_macros"
  "MANAGER_INTERFACE typed_macros = ''org.bluez.Manager''"
  "DEVICE_ROOT_ID typed_macros = 1"
  "device_path typed_macros 0 = ''/org/bluez/Device/hci0''"
  "SCAN_DISABLED typed_macros = 0"
  "SCAN_INQUIRY typed_macros = 1"
  "SCAN_PAGE typed_macros = 2"
  "MODE_OFF typed_macros = 0"
  "MODE_CONNECTABLE typed_macros = 1"
  "MODE_DISCOVERABLE typed_macros = 2"
  by (simp_all add: typed_macros_def device_path_def printf_d_def dec_digit MAX_PATH_LENGTH_def)

lemma typed_local_errors_ok: "local_errors_ok typed_macros"
  using sample_local_errors_ok
  by (simp add: local_errors_ok_def dbus_error_array_def typed_macros_def)

lemma typed_dev_table:
  "full_match (dev_services typed_macros) (sample_call ''DEV_GET_MODE'' [])"
  "hd (matching_rows (dev_services typed_macros) (sample_call ''DEV_GET_MODE'' [])) =
     \<lparr>name = ''DEV_GET_MODE'', handler_func = Handle_dev_get_mode_req, signature = []\<rparr>"
  by (simp_all add: full_match_def matching_rows_def dev_services_def
      dbus_message_get_signature_def typed_macros_def)

lemma typed_mgr_table:
  "call_interface (manager_call m as) = Some (MANAGER_INTERFACE typed_macros)"
  "named_rows (mgr_services typed_macros) (manager_call ''MGR_DEFAULT_DEVICE'' []) =
     [\<lparr>name = ''MGR_DEFAULT_DEVICE'', handler_func = Handle_mgr_default_device_req,
       signature = []\<rparr>]"
  "dbus_message_get_signature (manager_call ''MGR_DEFAULT_DEVICE'' []) = []"
  by (simp_all add: named_rows_def mgr_services_def manager_call_def
      dbus_message_get_signature_def)

lemma typed_replies:
  "typed_handlers Handle_dev_get_mode_req (sample_call ''DEV_GET_MODE'' []) (sample_data 2)
     sample_state = (Some (Method_return 7 [DBUS_TYPE_BYTE 1]), sample_state)"
  "typed_handlers Handle_mgr_default_device_req (manager_call ''MGR_DEFAULT_DEVICE'' [])
     (sample_data 0) registered_state =
     (Some (Method_return 7 [DBUS_TYPE_STRING ''/org/bluez/Device/hci0'']), registered_state)"
  by (simp_all add: typed_handlers_def handle_dev_get_mode_req_def Let_def
      handle_mgr_default_device_req_def dbus_message_new_method_return_def manager_call_def)

subsection \<open>Routing of method calls\<close>

text \<open>
  Claim C2. A call that reaches the scan of a service table (on a device path that is not
  the device root, or on the manager path with the manager interface) and whose method
  name is in the table, but with no entry of that name and the signature of the call, is
  answered with the "wrong signature" error and no function of the table is run. When no
  entry has the name of the call, the answer is "method not found". When an entry has the
  name, the answer is never the "method not found" of the message function:
  \<open>msg_func_device\<close> runs the function of the first entry that has the name and the
  signature and delivers its reply; \<open>msg_func_manager\<close>, whose loop has no
  \<open>break\<close>, runs the functions of all such entries and then delivers the reply of the
  last one if the last entry of that name has the signature of the call, and answers
  "wrong signature" otherwise; when one entry alone has the name and it has the
  signature, that is the reply of its function. The property holds whatever the functions
  behind the entries do; no function of the file builds a "method not found" reply
  itself, since \<open>BLUEZ_EDBUS_UNKNOWN_METHOD\<close> occurs nowhere but as the first value of
  \<open>error\<close> in the two message functions.
\<close>

theorem dispatch_wrong_signature:
  assumes ok: "local_errors_ok K"
  shows
    "(path_id data \<noteq> DEVICE_ROOT_ID K \<longrightarrow>
        (name_match (dev_services K) msg \<and> \<not> full_match (dev_services K) msg \<longrightarrow>
           msg_func_device K env call msg data s =
             (DBUS_HANDLER_RESULT_HANDLED,
              emit (Dbus_connection_send (wrong_signature_reply K msg)) s))
        \<and> (name_match (dev_services K) msg \<longrightarrow>
             device_error K call msg data s \<noteq> BLUEZ_EDBUS_UNKNOWN_METHOD K)
        \<and> (full_match (dev_services K) msg \<longrightarrow>
             msg_func_device K env call msg data s =
               deliver (call (handler_func (hd (matching_rows (dev_services K) msg))) msg data s))
        \<and> (\<not> name_match (dev_services K) msg \<longrightarrow>
             msg_func_device K env call msg data s =
               (DBUS_HANDLER_RESULT_NOT_YET_HANDLED,
                emit (Dbus_connection_send (unknown_method_reply K msg)) s)))
     \<and> (call_interface msg = Some (MANAGER_INTERFACE K) \<longrightarrow>
        (name_match (mgr_services K) msg \<and> \<not> full_match (mgr_services K) msg \<longrightarrow>
           msg_func_manager K env call msg data s =
             Inr (DBUS_HANDLER_RESULT_HANDLED,
                  emit (Dbus_connection_send (wrong_signature_reply K msg)) s))
        \<and> (name_match (mgr_services K) msg \<longrightarrow>
             manager_error K call msg data s \<noteq> BLUEZ_EDBUS_UNKNOWN_METHOD K)
        \<and> (name_match (mgr_services K) msg \<longrightarrow>
             msg_func_manager K env call msg data s =
               Inr (case call_rows call (matching_rows (mgr_services K) msg) msg data (None, s) of
                      (reply, s') \<Rightarrow>
                        if signature (last (named_rows (mgr_services K) msg)) =
                             dbus_message_get_signature msg
                        then deliver (reply, s')
                        else (DBUS_HANDLER_RESULT_HANDLED,
                              emit (Dbus_connection_send (wrong_signature_reply K msg)) s')))
        \<and> (named_rows (mgr_services K) msg = [h] \<and> signature h = dbus_message_get_signature msg \<longrightarrow>
             msg_func_manager K env call msg data s =
               Inr (deliver (call (handler_func h) msg data s)))
        \<and> (\<not> name_match (mgr_services K) msg \<longrightarrow>
             msg_func_manager K env call msg data s =
               Inr (DBUS_HANDLER_RESULT_NOT_YET_HANDLED,
                    emit (Dbus_connection_send (unknown_method_reply K msg)) s)))"
proof -
  note codes = local_codes [OF ok]
  let ?init = "(DBUS_HANDLER_RESULT_NOT_YET_HANDLED, BLUEZ_EDBUS_UNKNOWN_METHOD K,
                None :: dbus_message option, s)"
  have nosig: "\<forall>h \<in> set tbl. name h = call_member msg \<longrightarrow>
                 signature h \<noteq> dbus_message_get_signature msg"
    if "\<not> full_match tbl msg" for tbl
    using that by (auto simp: full_match_def)
  have d1: "msg_func_device K env call msg data s =
              (DBUS_HANDLER_RESULT_HANDLED,
               emit (Dbus_connection_send (wrong_signature_reply K msg)) s)"
    if "path_id data \<noteq> DEVICE_ROOT_ID K" "name_match (dev_services K) msg"
       "\<not> full_match (dev_services K) msg"
    using that device_loop_no_signature [OF nosig [OF that(3)], of K call data]
      wrong_signature_msg [OF ok] codes
    by (simp add: msg_func_device_def send_reply_def name_match_def wrong_signature_reply_def)
  have d2: "device_error K call msg data s \<noteq> BLUEZ_EDBUS_UNKNOWN_METHOD K"
    if "name_match (dev_services K) msg"
    using device_loop_named [of "dev_services K" msg K call data
        DBUS_HANDLER_RESULT_NOT_YET_HANDLED "BLUEZ_EDBUS_UNKNOWN_METHOD K" None s] that codes
    by (auto simp: device_error_def name_match_def)
  have d3: "msg_func_device K env call msg data s =
              (DBUS_HANDLER_RESULT_NOT_YET_HANDLED,
               emit (Dbus_connection_send (unknown_method_reply K msg)) s)"
    if "path_id data \<noteq> DEVICE_ROOT_ID K" "\<not> name_match (dev_services K) msg"
  proof -
    from that(2) have "\<forall>h \<in> set (dev_services K). name h \<noteq> call_member msg"
      by (simp add: name_match_def)
    from device_loop_no_name [OF this] that(1) unknown_method_msg [OF ok] codes
    show ?thesis
      by (simp add: msg_func_device_def send_reply_def unknown_method_reply_def)
  qed
  have d4: "msg_func_device K env call msg data s =
              deliver (call (handler_func (hd (matching_rows (dev_services K) msg))) msg data s)"
    if "path_id data \<noteq> DEVICE_ROOT_ID K" "full_match (dev_services K) msg"
  proof -
    from that(2) have "matching_rows (dev_services K) msg \<noteq> []"
      by (auto simp: full_match_def matching_rows_def filter_empty_conv)
    from device_loop_full [OF this, of K call data] that(1) show ?thesis
      by (simp add: msg_func_device_def send_reply_def deliver_def
          split: prod.splits option.splits)
  qed
  have m1: "msg_func_manager K env call msg data s =
              Inr (DBUS_HANDLER_RESULT_HANDLED,
                   emit (Dbus_connection_send (wrong_signature_reply K msg)) s)"
    if "call_interface msg = Some (MANAGER_INTERFACE K)" "name_match (mgr_services K) msg"
       "\<not> full_match (mgr_services K) msg"
    using that manager_loop_no_signature [OF nosig [OF that(3)], of K call data]
      wrong_signature_msg [OF ok] codes
    by (simp add: msg_func_manager_def send_reply_def name_match_def wrong_signature_reply_def)
  have m2: "manager_error K call msg data s \<noteq> BLUEZ_EDBUS_UNKNOWN_METHOD K"
    if "name_match (mgr_services K) msg"
    using manager_loop_named [of "mgr_services K" msg K call data
        DBUS_HANDLER_RESULT_NOT_YET_HANDLED "BLUEZ_EDBUS_UNKNOWN_METHOD K" None s] that codes
    by (auto simp: manager_error_def name_match_def)
  have m3: "msg_func_manager K env call msg data s =
              Inr (DBUS_HANDLER_RESULT_NOT_YET_HANDLED,
                   emit (Dbus_connection_send (unknown_method_reply K msg)) s)"
    if "call_interface msg = Some (MANAGER_INTERFACE K)" "\<not> name_match (mgr_services K) msg"
  proof -
    from that(2) have "\<forall>h \<in> set (mgr_services K). name h \<noteq> call_member msg"
      by (simp add: name_match_def)
    from manager_loop_no_name [OF this] that(1) unknown_method_msg [OF ok] codes
    show ?thesis
      by (simp add: msg_func_manager_def send_reply_def unknown_method_reply_def)
  qed
  have m4: "msg_func_manager K env call msg data s =
               Inr (case call_rows call (matching_rows (mgr_services K) msg) msg data (None, s) of
                      (reply, s') \<Rightarrow>
                        if signature (last (named_rows (mgr_services K) msg)) =
                             dbus_message_get_signature msg
                        then deliver (reply, s')
                        else (DBUS_HANDLER_RESULT_HANDLED,
                              emit (Dbus_connection_send (wrong_signature_reply K msg)) s'))"
    if "call_interface msg = Some (MANAGER_INTERFACE K)" "name_match (mgr_services K) msg"
  proof -
    from that(2) have "named_rows (mgr_services K) msg \<noteq> []"
      by (auto simp: name_match_def named_rows_def filter_empty_conv)
    with that(1) wrong_signature_msg [OF ok] codes show ?thesis
      by (simp add: msg_func_manager_def manager_loop_rows send_reply_def deliver_def
          wrong_signature_reply_def split: prod.splits option.splits)
  qed
  have m5: "msg_func_manager K env call msg data s =
              Inr (deliver (call (handler_func h) msg data s))"
    if i: "call_interface msg = Some (MANAGER_INTERFACE K)"
      and n: "named_rows (mgr_services K) msg = [h]"
      and g: "signature h = dbus_message_get_signature msg"
  proof -
    from n have "h \<in> set (filter (\<lambda>h. name h = call_member msg) (mgr_services K))"
      by (simp add: named_rows_def)
    then have nm: "name_match (mgr_services K) msg"
      by (auto simp: name_match_def)
    have "matching_rows (mgr_services K) msg =
            filter (\<lambda>h. signature h = dbus_message_get_signature msg)
              (named_rows (mgr_services K) msg)"
      by (simp add: matching_rows_def named_rows_def conj_commute)
    with n g have "matching_rows (mgr_services K) msg = [h]" by simp
    with m4 [OF i nm] n g show ?thesis
      by (simp add: call_rows_def split: prod.splits)
  qed
  show ?thesis
    by (intro conjI impI d1 d2 d3 d4 m1 m2 m3 m4 m5) simp_all
qed

theorem dispatch_wrong_signature_witness:
  "local_errors_ok sample_macros
   \<and> path_id (sample_data 0) \<noteq> DEVICE_ROOT_ID sample_macros
   \<and> name_match (dev_services sample_macros) (sample_call ''DEV_SET_MODE'' [DBUS_TYPE_STRING ''on''])
   \<and> \<not> full_match (dev_services sample_macros) (sample_call ''DEV_SET_MODE'' [DBUS_TYPE_STRING ''on''])
   \<and> msg_func_device sample_macros stub_env sample_handlers
        (sample_call ''DEV_SET_MODE'' [DBUS_TYPE_STRING ''on'']) (sample_data 0) sample_state =
       (DBUS_HANDLER_RESULT_HANDLED,
        emit (Dbus_connection_send
          (Error_message 7 ''org.bluez.Error''
             [DBUS_TYPE_STRING ''Wrong method signature'', DBUS_TYPE_UINT32 0x10002]))
          sample_state)
   \<and> call_interface ((sample_call ''MGR_DEFAULT_DEVICE'' [DBUS_TYPE_BYTE 1])
                        \<lparr>call_interface := Some ''org.bluez.Manager''\<rparr>) =
       Some (MANAGER_INTERFACE sample_macros)
   \<and> name_match (mgr_services sample_macros)
        ((sample_call ''MGR_DEFAULT_DEVICE'' [DBUS_TYPE_BYTE 1])
           \<lparr>call_interface := Some ''org.bluez.Manager''\<rparr>)
   \<and> \<not> full_match (mgr_services sample_macros)
        ((sample_call ''MGR_DEFAULT_DEVICE'' [DBUS_TYPE_BYTE 1])
           \<lparr>call_interface := Some ''org.bluez.Manager''\<rparr>)
   \<and> msg_func_manager sample_macros stub_env sample_handlers
        ((sample_call ''MGR_DEFAULT_DEVICE'' [DBUS_TYPE_BYTE 1])
           \<lparr>call_interface := Some ''org.bluez.Manager''\<rparr>) (sample_data 0) sample_state =
       Inr (DBUS_HANDLER_RESULT_HANDLED,
            emit (Dbus_connection_send
              (Error_message 7 ''org.bluez.Error''
                 [DBUS_TYPE_STRING ''Wrong method signature'', DBUS_TYPE_UINT32 0x10002]))
              sample_state)
   \<and> \<not> name_match (dev_services sample_macros) (sample_call ''Unknown'' [])
   \<and> msg_func_device sample_macros stub_env sample_handlers
        (sample_call ''Unknown'' []) (sample_data 0) sample_state =
       (DBUS_HANDLER_RESULT_NOT_YET_HANDLED,
        emit (Dbus_connection_send
          (Error_message 7 ''org.bluez.Error''
             [DBUS_TYPE_STRING ''Method not found'', DBUS_TYPE_UINT32 0x10001]))
          sample_state)
   \<and> call_interface (manager_call ''Unknown'' []) = Some (MANAGER_INTERFACE sample_macros)
   \<and> \<not> name_match (mgr_services sample_macros) (manager_call ''Unknown'' [])
   \<and> msg_func_manager sample_macros stub_env sample_handlers
        (manager_call ''Unknown'' []) (sample_data 0) sample_state =
       Inr (DBUS_HANDLER_RESULT_NOT_YET_HANDLED,
            emit (Dbus_connection_send
              (Error_message 7 ''org.bluez.Error''
                 [DBUS_TYPE_STRING ''Method not found'', DBUS_TYPE_UINT32 0x10001]))
              sample_state)
   \<and> local_errors_ok typed_macros
   \<and> path_id (sample_data 2) \<noteq> DEVICE_ROOT_ID typed_macros
   \<and> full_match (dev_services typed_macros) (sample_call ''DEV_GET_MODE'' [])
   \<and> msg_func_device typed_macros stub_env typed_handlers
        (sample_call ''DEV_GET_MODE'' []) (sample_data 2) sample_state =
       (DBUS_HANDLER_RESULT_HANDLED,
        emit (Dbus_connection_send (Method_return 7 [DBUS_TYPE_BYTE 1])) sample_state)
   \<and> call_interface (manager_call ''MGR_DEFAULT_DEVICE'' []) =
       Some (MANAGER_INTERFACE typed_macros)
   \<and> named_rows (mgr_services typed_macros) (manager_call ''MGR_DEFAULT_DEVICE'' []) =
       [\<lparr>name = ''MGR_DEFAULT_DEVICE'', handler_func = Handle_mgr_default_device_req,
         signature = []\<rparr>]
   \<and> msg_func_manager typed_macros stub_env typed_handlers
        (manager_call ''MGR_DEFAULT_DEVICE'' []) (sample_data 0) registered_state =
       Inr (DBUS_HANDLER_RESULT_HANDLED,
            emit (Dbus_connection_send
                    (Method_return 7 [DBUS_TYPE_STRING ''/org/bluez/Device/hci0'']))
              registered_state)"
proof -
  let ?set = "sample_call ''DEV_SET_MODE'' [DBUS_TYPE_STRING ''on'']"
  let ?def = "(sample_call ''MGR_DEFAULT_DEVICE'' [DBUS_TYPE_BYTE 1])
                \<lparr>call_interface := Some ''org.bluez.Manager''\<rparr>"
  let ?wrong = "Error_message 7 ''org.bluez.Error''
                  [DBUS_TYPE_STRING ''Wrong method signature'', DBUS_TYPE_UINT32 0x10002]"
  have a: "msg_func_device sample_macros stub_env sample_handlers ?set (sample_data 0)
             sample_state =
           (DBUS_HANDLER_RESULT_HANDLED, emit (Dbus_connection_send ?wrong) sample_state)"
    using dispatch_wrong_signature [OF sample_local_errors_ok,
        of "sample_data 0" ?set stub_env sample_handlers sample_state]
      sample_dev_table
    by (simp add: wrong_signature_reply_def failure_reply_def)
  have b: "msg_func_manager sample_macros stub_env sample_handlers ?def (sample_data 0)
             sample_state =
           Inr (DBUS_HANDLER_RESULT_HANDLED, emit (Dbus_connection_send ?wrong) sample_state)"
    using dispatch_wrong_signature [OF sample_local_errors_ok,
        of "sample_data 0" ?def stub_env sample_handlers sample_state]
      sample_mgr_table
    by (simp add: wrong_signature_reply_def failure_reply_def)
  have c: "msg_func_device typed_macros stub_env typed_handlers
             (sample_call ''DEV_GET_MODE'' []) (sample_data 2) sample_state =
           (DBUS_HANDLER_RESULT_HANDLED,
            emit (Dbus_connection_send (Method_return 7 [DBUS_TYPE_BYTE 1])) sample_state)"
    using dispatch_wrong_signature [OF typed_local_errors_ok,
        of "sample_data 2" "sample_call ''DEV_GET_MODE'' []" stub_env typed_handlers
           sample_state]
      typed_dev_table typed_replies
    by (simp add: deliver_def)
  have d: "msg_func_manager typed_macros stub_env typed_handlers
             (manager_call ''MGR_DEFAULT_DEVICE'' []) (sample_data 0) registered_state =
           Inr (DBUS_HANDLER_RESULT_HANDLED,
                emit (Dbus_connection_send
                        (Method_return 7 [DBUS_TYPE_STRING ''/org/bluez/Device/hci0'']))
                  registered_state)"
    using dispatch_wrong_signature [OF typed_local_errors_ok,
        of "sample_data 0" "manager_call ''MGR_DEFAULT_DEVICE'' []" stub_env typed_handlers
           registered_state
           "\<lparr>name = ''MGR_DEFAULT_DEVICE'', handler_func = Handle_mgr_default_device_req,
             signature = []\<rparr>"]
      typed_mgr_table typed_replies
    by (simp add: deliver_def)
  have e: "msg_func_device sample_macros stub_env sample_handlers
             (sample_call ''Unknown'' []) (sample_data 0) sample_state =
           (DBUS_HANDLER_RESULT_NOT_YET_HANDLED,
            emit (Dbus_connection_send
              (Error_message 7 ''org.bluez.Error''
                 [DBUS_TYPE_STRING ''Method not found'', DBUS_TYPE_UINT32 0x10001]))
              sample_state)"
    using dispatch_wrong_signature [OF sample_local_errors_ok,
        of "sample_data 0" "sample_call ''Unknown'' []" stub_env sample_handlers sample_state]
      sample_no_name
    by (simp add: unknown_method_reply_def failure_reply_def)
  have f: "msg_func_manager sample_macros stub_env sample_handlers
             (manager_call ''Unknown'' []) (sample_data 0) sample_state =
           Inr (DBUS_HANDLER_RESULT_NOT_YET_HANDLED,
                emit (Dbus_connection_send
                  (Error_message 7 ''org.bluez.Error''
                     [DBUS_TYPE_STRING ''Method not found'', DBUS_TYPE_UINT32 0x10001]))
                  sample_state)"
    using dispatch_wrong_signature [OF sample_local_errors_ok,
        of "sample_data 0" "manager_call ''Unknown'' []" stub_env sample_handlers sample_state]
      sample_no_name
    by (simp add: unknown_method_reply_def failure_reply_def manager_call_def)
  from a b c d e f sample_local_errors_ok sample_dev_table sample_mgr_table
    typed_local_errors_ok typed_dev_table typed_mgr_table sample_no_name
  show ?thesis by simp
qed

text \<open>
  Claim C3. A call that arrives with the user data of the device root is answered with
  the "unknown path" error, whatever its method and arguments. The answer does not depend
  on the names and signatures in the table nor on the functions behind the entries: no
  entry is looked at and no function is run.
\<close>

theorem device_root_unknown_path:
  assumes ok: "local_errors_ok K" and root: "path_id data = DEVICE_ROOT_ID K"
  shows "msg_func_device (K\<lparr>SERVICE := names\<rparr>) env call msg data s =
           (DBUS_HANDLER_RESULT_HANDLED,
            emit (Dbus_connection_send (unknown_path_reply K msg)) s)"
proof -
  let ?K = "K\<lparr>SERVICE := names\<rparr>"
  from ok have ok': "local_errors_ok ?K"
    by (simp add: local_errors_ok_def dbus_error_array_def)
  from unknown_path_msg [OF ok', of env msg] local_codes(3) [OF ok'] root
  show ?thesis
    by (simp add: msg_func_device_def send_reply_def unknown_path_reply_def failure_reply_def)
qed

theorem device_root_unknown_path_witness:
  "local_errors_ok sample_macros
   \<and> path_id \<lparr>dev_id = 0xFFFF, path_id = 1, path_data = 0\<rparr> = DEVICE_ROOT_ID sample_macros
   \<and> msg_func_device (sample_macros\<lparr>SERVICE := (\<lambda>m. ''GetMode'')\<rparr>) stub_env sample_handlers
        (sample_call ''GetMode'' []) \<lparr>dev_id = 0xFFFF, path_id = 1, path_data = 0\<rparr> sample_state =
       (DBUS_HANDLER_RESULT_HANDLED,
        emit (Dbus_connection_send
          (Error_message 7 ''org.bluez.Error''
             [DBUS_TYPE_STRING ''Unknown D-BUS path'', DBUS_TYPE_UINT32 0x10007]))
          sample_state)"
  using device_root_unknown_path [OF sample_local_errors_ok,
      of "\<lparr>dev_id = 0xFFFF, path_id = 1, path_data = 0\<rparr>" "\<lambda>m. ''GetMode''" stub_env sample_handlers
         "sample_call ''GetMode'' []" sample_state]
    sample_local_errors_ok
  by (simp add: unknown_path_reply_def failure_reply_def)

subsection \<open>Reading the scan mode\<close>

text \<open>
  Claim C9. GetMode answers from the low octet of the cached \<open>path_data\<close>: scanning
  disabled gives "off", page scan alone "connectable", page and inquiry scan
  "discoverable"; inquiry scan alone, like every other value, gives the octet 0xFF. The
  four \<open>case\<close> labels of the \<open>switch\<close> are pairwise different, as C requires.
\<close>

theorem get_mode_mapping:
  assumes labels: "distinct [SCAN_DISABLED K, SCAN_PAGE K, SCAN_PAGE K OR SCAN_INQUIRY K, SCAN_INQUIRY K]"
  shows "(ucast (path_data d) = SCAN_DISABLED K \<longrightarrow>
            fst (handle_dev_get_mode_req K msg d s) = mode_reply msg (MODE_OFF K))
       \<and> (ucast (path_data d) = SCAN_PAGE K \<longrightarrow>
            fst (handle_dev_get_mode_req K msg d s) = mode_reply msg (MODE_CONNECTABLE K))
       \<and> (ucast (path_data d) = (SCAN_PAGE K OR SCAN_INQUIRY K) \<longrightarrow>
            fst (handle_dev_get_mode_req K msg d s) = mode_reply msg (MODE_DISCOVERABLE K))
       \<and> (ucast (path_data d) = SCAN_INQUIRY K \<longrightarrow>
            fst (handle_dev_get_mode_req K msg d s) = mode_reply msg 0xff)
       \<and> (ucast (path_data d) \<notin> {SCAN_DISABLED K, SCAN_PAGE K, SCAN_PAGE K OR SCAN_INQUIRY K} \<longrightarrow>
            fst (handle_dev_get_mode_req K msg d s) = mode_reply msg 0xff)"
  using labels
  by (auto simp: handle_dev_get_mode_req_def mode_reply_def Let_def
      dbus_message_new_method_return_def)

theorem get_mode_mapping_witness:
  "distinct [SCAN_DISABLED sample_macros, SCAN_PAGE sample_macros,
             SCAN_PAGE sample_macros OR SCAN_INQUIRY sample_macros, SCAN_INQUIRY sample_macros]
   \<and> (ucast (path_data (sample_data 1)) :: 8 word) = SCAN_INQUIRY sample_macros
   \<and> fst (handle_dev_get_mode_req sample_macros (sample_call ''DEV_GET_MODE'' []) (sample_data 1)
            sample_state) = Some (Method_return 7 [DBUS_TYPE_BYTE 0xff])"
  using get_mode_mapping [of sample_macros "sample_data 1" "sample_call ''DEV_GET_MODE'' []" sample_state]
  by (simp add: mode_reply_def)

text \<open>
  Claim C10. GetMode leaves the whole state as it is (the cached mode, the registered
  paths, the default controller and the trace), so it makes no transport call; the
  function is not even given the environment.  Its reply depends on nothing but the low
  octet of the cached mode of the entry: two calls on entries with the same octet give the
  same reply, whatever the two states are.
\<close>

theorem get_mode_frame:
  "snd (handle_dev_get_mode_req K msg data s) = s
   \<and> count is_transport_call (added s (snd (handle_dev_get_mode_req K msg data s))) = 0
   \<and> ((ucast (path_data data) :: 8 word) = ucast (path_data data') \<longrightarrow>
        fst (handle_dev_get_mode_req K msg data s) = fst (handle_dev_get_mode_req K msg data' s'))"
  by (simp add: handle_dev_get_mode_req_def Let_def)

theorem get_mode_frame_witness:
  "(ucast (path_data (sample_data 0x102)) :: 8 word) = ucast (path_data (sample_data 2))
   \<and> snd (handle_dev_get_mode_req sample_macros (sample_call ''DEV_GET_MODE'' []) (sample_data 0x102)
            registered_state) = registered_state
   \<and> fst (handle_dev_get_mode_req sample_macros (sample_call ''DEV_GET_MODE'' []) (sample_data 0x102)
            registered_state) =
       fst (handle_dev_get_mode_req sample_macros (sample_call ''DEV_GET_MODE'' []) (sample_data 2)
            sample_state)
   \<and> fst (handle_dev_get_mode_req sample_macros (sample_call ''DEV_GET_MODE'' []) (sample_data 2)
            sample_state) = Some (Method_return 7 [DBUS_TYPE_BYTE 1])"
  using get_mode_frame [of sample_macros "sample_call ''DEV_GET_MODE'' []" "sample_data 0x102"
      registered_state "sample_data 2" sample_state]
  by (simp add: handle_dev_get_mode_req_def Let_def dbus_message_new_method_return_def)


subsection \<open>Failure replies\<close>

text \<open>
  Claim C6, amended. For a code outside the system class: if the table of its class has
  no entry with the code, no failure message is built at all; if the table has the code
  (and, as in the file, no entry of the table has code 0 and no two entries share a
  code), the failure message is an error message whose error name is
  \<open>ERROR_INTERFACE\<close>, whose first argument is the text of the table, as a string, and
  whose second argument is the code, as a \<open>uint32\<close>. The text is the error message,
  not the error name: the counterexample below shows the name of the reply for "method
  not found".
\<close>

theorem failure_msg_by_table:
  assumes sys: "ecode AND BLUEZ_ESYSTEM_OFFSET K = 0"
  shows "(ecode \<notin> code ` set (error_table K ecode) \<longrightarrow>
            bluez_new_failure_msg K env msg ecode = None)
       \<and> (0 \<notin> code ` set (error_table K ecode) \<and> distinct (map code (error_table K ecode))
            \<and> e \<in> set (error_table K ecode) \<and> code e = ecode \<longrightarrow>
            bluez_new_failure_msg K env msg ecode =
              Some (Error_message (call_serial msg) (ERROR_INTERFACE K)
                      [DBUS_TYPE_STRING (str e), DBUS_TYPE_UINT32 ecode]))"
proof -
  have scan: "bluez_dbus_error_to_str K env ecode = error_scan (error_table K ecode) ecode"
    using sys by (simp add: bluez_dbus_error_to_str_def error_table_def)
  have absent: "bluez_new_failure_msg K env msg ecode = None"
    if "ecode \<notin> code ` set (error_table K ecode)"
    using error_scan_absent [OF that] scan by (simp add: bluez_new_failure_msg_def)
  have present: "bluez_new_failure_msg K env msg ecode =
      Some (Error_message (call_serial msg) (ERROR_INTERFACE K)
              [DBUS_TYPE_STRING (str e), DBUS_TYPE_UINT32 ecode])"
    if "0 \<notin> code ` set (error_table K ecode)" "distinct (map code (error_table K ecode))"
       "e \<in> set (error_table K ecode)" "code e = ecode"
    using error_scan_present [OF that(1,2,3)] that(4) scan
    by (simp add: bluez_new_failure_msg_def dbus_message_new_error_def)
  from absent present show ?thesis by blast
qed

theorem failure_msg_by_table_witness:
  "(0x10001 :: 32 word) AND BLUEZ_ESYSTEM_OFFSET sample_macros = 0
   \<and> 0 \<notin> code ` set (error_table sample_macros 0x10001)
   \<and> distinct (map code (error_table sample_macros 0x10001))
   \<and> \<lparr>code = 0x10001, str = ''Method not found''\<rparr> \<in> set (error_table sample_macros 0x10001)
   \<and> bluez_new_failure_msg sample_macros stub_env (sample_call ''DEV_GET_MODE'' []) 0x10001 =
       Some (Error_message 7 ''org.bluez.Error''
               [DBUS_TYPE_STRING ''Method not found'', DBUS_TYPE_UINT32 0x10001])"
  using failure_msg_by_table [where ecode = "0x10001" and K = sample_macros
      and e = "\<lparr>code = 0x10001, str = ''Method not found''\<rparr>"
      and env = stub_env and msg = "sample_call ''DEV_GET_MODE'' []"]
  by (simp add: sample_error_table dbus_error_array_def)

theorem failure_msg_error_name_counterexample:
  "\<lparr>code = 0x10001, str = ''Method not found''\<rparr> \<in> set (dbus_error_array sample_macros)
   \<and> bluez_new_failure_msg sample_macros stub_env (sample_call ''DEV_GET_MODE'' []) 0x10001 =
       Some (Error_message 7 ''org.bluez.Error''
               [DBUS_TYPE_STRING ''Method not found'', DBUS_TYPE_UINT32 0x10001])
   \<and> error_name (Error_message 7 ''org.bluez.Error''
               [DBUS_TYPE_STRING ''Method not found'', DBUS_TYPE_UINT32 0x10001])
       \<noteq> Some ''Method not found''"
  by (simp add: dbus_error_array_def bluez_new_failure_msg_def bluez_dbus_error_to_str_def
      dbus_message_new_error_def)

subsection \<open>Registering a controller\<close>

text \<open>
  Claim C7. The claim holds wherever the function returns
  (\<open>register_device_returns\<close> and \<open>register_device_fallback\<close> above), but the
  function does not always return. Controller 0 is registered while the bus library
  refuses to register the object path and nothing is registered at
  \<open>/org/bluez/Device/hci0\<close>: the registration of the path fails,
  \<open>dbus_connection_get_object_path_data\<close> hands back NULL, and line 585 writes the
  scan status through it, so the function does not return failure.
  \<open>unregister_dbus_path\<close> tests the same pointer (\<open>&& data\<close>) before it uses it.
  With path data left over from an earlier registration the same failing registration
  does return failure.
\<close>

theorem register_device_null_write:
  "\<not> fst (register_dbus_path no_register_env ''/org/bluez/Device/hci0'' 2 0 Obj_dev_vtable
            False sample_state)
   \<and> object_paths sample_state ''/org/bluez/Device/hci0'' = None
   \<and> hcid_dbus_register_device sample_macros no_register_env 0 sample_state =
       Inl NULL_POINTER_WRITE
   \<and> object_paths registered_state ''/org/bluez/Device/hci0'' \<noteq> None
   \<and> (\<exists>s'. hcid_dbus_register_device sample_macros no_register_env 0 registered_state =
               Inr (False, s'))"
  by (simp add: hcid_dbus_register_device_def register_dbus_path_def register_device_scan_def
      keep_scan_status_def Let_def)


subsection \<open>The default controller\<close>

text \<open>
  Claim C8, amended. The default is one number, so two controllers that are both the
  default are the same. A registration returns what the registration of the path
  returned, and changes the default only when it succeeds and there is no default, and
  then to the registered controller; it can end in a write through NULL only when the
  registration of the path has failed, so never with a new default. A removal returns what the
  unregistration of the path returned; it changes the default only when it succeeds and
  the removed controller is the default, and then to whatever the route query of the
  kernel returns. A removal that fails leaves the default as it was, and the default is
  what GetDefaultDevice reports: the counterexample below removes the default controller
  with a failing unregistration and still gets it reported.
\<close>

theorem default_controller:
  "(default_dev s = uint (a :: 16 word) \<and> default_dev s = uint (b :: 16 word) \<longrightarrow> a = b)
   \<and> (case hcid_dbus_register_device K env i s of
         Inl f \<Rightarrow>
           \<not> fst (register_dbus_path env (device_path K (uint i)) (DEVICE_PATH_ID K) i
                    Obj_dev_vtable False s)
       | Inr (ret, s') \<Rightarrow>
           ret = fst (register_dbus_path env (device_path K (uint i)) (DEVICE_PATH_ID K) i
                        Obj_dev_vtable False s)
           \<and> default_dev s' = (if ret \<and> default_dev s < 0 then uint i else default_dev s))
   \<and> fst (hcid_dbus_unregister_device K env i s) =
       dbus_connection_unregister_object_path env (device_path K (uint i))
   \<and> default_dev (snd (hcid_dbus_unregister_device K env i s)) =
       (if fst (hcid_dbus_unregister_device K env i s) \<and> default_dev s = uint i
        then hci_get_route env else default_dev s)
   \<and> (0 \<le> default_dev s \<and> dbus_message_new env \<longrightarrow>
        fst (handle_mgr_default_device_req K env msg data s) =
          Some (Method_return (call_serial msg)
                  [DBUS_TYPE_STRING (device_path K (default_dev s))]))"
proof -
  have one: "a = b" if "default_dev s = uint a" "default_dev s = uint b" for a b :: "16 word"
    using that by (simp add: word_uint_eq_iff)
  have reg: "case hcid_dbus_register_device K env i s of
         Inl f \<Rightarrow>
           \<not> fst (register_dbus_path env (device_path K (uint i)) (DEVICE_PATH_ID K) i
                    Obj_dev_vtable False s)
       | Inr (ret, s') \<Rightarrow>
           ret = fst (register_dbus_path env (device_path K (uint i)) (DEVICE_PATH_ID K) i
                        Obj_dev_vtable False s)
           \<and> default_dev s' = (if ret \<and> default_dev s < 0 then uint i else default_dev s)"
  proof (cases "hcid_dbus_register_device K env i s")
    case (Inl f)
    with register_device_fault [of K env i s f] show ?thesis by simp
  next
    case (Inr rs)
    obtain ret s' where "rs = (ret, s')" by (cases rs)
    with Inr register_device_returns [of K env i s ret s'] show ?thesis by simp
  qed
  obtain u s3 where u: "unregister_dbus_path env (device_path K (uint i))
      (manager_signal K env (BLUEZ_MGR_DEV_REMOVED K) (device_path K (uint i)) s) = (u, s3)"
    by (cases "unregister_dbus_path env (device_path K (uint i))
      (manager_signal K env (BLUEZ_MGR_DEV_REMOVED K) (device_path K (uint i)) s)")
  from unregister_dbus_path_simps [of env "device_path K (uint i)"
      "manager_signal K env (BLUEZ_MGR_DEV_REMOVED K) (device_path K (uint i)) s"] u
  have u1: "u = dbus_connection_unregister_object_path env (device_path K (uint i))"
    and u2: "default_dev s3 = default_dev s" by simp_all
  have unreg1: "fst (hcid_dbus_unregister_device K env i s) =
       dbus_connection_unregister_object_path env (device_path K (uint i))"
    using u u1 by (simp add: hcid_dbus_unregister_device_def Let_def)
  have unreg2: "default_dev (snd (hcid_dbus_unregister_device K env i s)) =
       (if fst (hcid_dbus_unregister_device K env i s) \<and> default_dev s = uint i
        then hci_get_route env else default_dev s)"
    using u u1 u2 by (simp add: hcid_dbus_unregister_device_def Let_def)
  have rep: "fst (handle_mgr_default_device_req K env msg data s) =
          Some (Method_return (call_serial msg)
                  [DBUS_TYPE_STRING (device_path K (default_dev s))])"
    if "0 \<le> default_dev s" "dbus_message_new env"
    using that by (simp add: handle_mgr_default_device_req_def dbus_message_new_method_return_def)
  from one [of a b] reg unreg1 unreg2 rep show ?thesis by (intro conjI impI) simp_all
qed

theorem default_controller_witness:
  "default_dev sample_state < 0
   \<and> hcid_dbus_register_device sample_macros stub_env 0 sample_state =
       Inr (True, registered_state)
   \<and> default_dev registered_state = 0
   \<and> 0 \<le> default_dev registered_state \<and> dbus_message_new stub_env
   \<and> fst (hcid_dbus_unregister_device sample_macros stub_env 0 registered_state)
   \<and> default_dev registered_state = uint (0 :: 16 word)
   \<and> default_dev (snd (hcid_dbus_unregister_device sample_macros stub_env 0 registered_state)) = - 1
   \<and> fst (handle_mgr_default_device_req sample_macros stub_env (sample_call ''MGR_DEFAULT_DEVICE'' [])
            (sample_data 0) registered_state) =
       Some (Method_return 7 [DBUS_TYPE_STRING ''/org/bluez/Device/hci0''])"
  using default_controller [where s = registered_state and a = 0 and b = 0
      and K = sample_macros and env = stub_env and i = 0
      and msg = "sample_call ''MGR_DEFAULT_DEVICE'' []" and data = "sample_data 0"]
    default_controller [where s = sample_state and a = 0 and b = 0
      and K = sample_macros and env = stub_env and i = 0
      and msg = "sample_call ''MGR_DEFAULT_DEVICE'' []" and data = "sample_data 0"]
    register_sample
  by simp

theorem default_after_failed_unregister_counterexample:
  "default_dev registered_state = uint (0 :: 16 word)
   \<and> \<not> fst (hcid_dbus_unregister_device sample_macros no_unregister_env 0 registered_state)
   \<and> hci_get_route no_unregister_env = - 1
   \<and> default_dev (snd (hcid_dbus_unregister_device sample_macros no_unregister_env 0
                          registered_state)) = 0
   \<and> fst (handle_mgr_default_device_req sample_macros no_unregister_env
            (sample_call ''MGR_DEFAULT_DEVICE'' []) (sample_data 0)
            (snd (hcid_dbus_unregister_device sample_macros no_unregister_env 0 registered_state))) =
       Some (Method_return 7 [DBUS_TYPE_STRING ''/org/bluez/Device/hci0''])"
  by (simp add: hcid_dbus_unregister_device_def unregister_dbus_path_def Let_def
      handle_mgr_default_device_req_def dbus_message_new_method_return_def)

subsection \<open>Setting the scan mode\<close>

text \<open>
  The cached mode of a path changes in two places only: at registration, and in
  \<open>hcid_dbus_setscan_enable_complete\<close>, which stores what the controller reports
  when a scan-enable write has completed.
\<close>

lemma mode_changed_signal_simps [simp]:
  "object_paths (mode_changed_signal K env p enable s) = object_paths s"
  "default_dev (mode_changed_signal K env p enable s) = default_dev s"
  by (simp_all add: mode_changed_signal_def Let_def split: option.splits)

lemma setscan_enable_complete_cache:
  assumes "hci_devid env (batostr env (baswap env local)) = i" "0 \<le> i"
    and "hci_open_dev env i = Inr dd"
    and "hci_send_req env dd read_scan_enable 100 = Inr rp" "rp_status rp = 0"
    and "dbus_connection_get_object_path_data env (device_path K i)"
    and "object_paths s (device_path K i) = Some d"
  shows "\<exists>s'. hcid_dbus_setscan_enable_complete K env local s = Inr s'
           \<and> object_paths s' (device_path K i) = Some (d\<lparr>path_data := ucast (rp_enable rp)\<rparr>)"
  using assms
  by (simp add: hcid_dbus_setscan_enable_complete_def Let_def)

text \<open>
  Claim C1, amended. Let the call carry one of the three modes X, with raw mode
  \<open>raw\<close>, and let the controller open and the transport answer every request with
  status 0. SetMode(X) then replies success and changes neither the registered path data
  (so the cached mode M stays what it was) nor the default controller. GetMode after
  SetMode(X) gives what GetMode gave before; it gives X when M already was \<open>raw\<close>
  and, the three modes being different from each other and from 0xFF, only then.
  Each SetMode(X) sends the scan-enable write exactly when M differs from \<open>raw\<close>:
  one call sends it once, two calls in a row send it twice, and none is sent when M
  equals \<open>raw\<close>.
\<close>

theorem set_mode_keeps_cache:
  assumes x: "call_args msg = DBUS_TYPE_BYTE x # rest"
    and sw: "set_mode_switch K x = Some raw"
    and opn: "hci_open_dev env (uint (dev_id d)) = Inr dd"
    and req: "\<forall>m. \<exists>rp. hci_send_req env dd (write_scan_enable m) 100 = Inr rp \<and> rp_status rp = 0"
  shows "fst (handle_dev_set_mode_req K env msg d s) = Some (dbus_message_new_method_return msg)
       \<and> object_paths (snd (handle_dev_set_mode_req K env msg d s)) = object_paths s
       \<and> default_dev (snd (handle_dev_set_mode_req K env msg d s)) = default_dev s
       \<and> fst (handle_dev_get_mode_req K msg' d (snd (handle_dev_set_mode_req K env msg d s))) =
           fst (handle_dev_get_mode_req K msg' d s)
       \<and> (distinct [SCAN_DISABLED K, SCAN_PAGE K, SCAN_PAGE K OR SCAN_INQUIRY K]
            \<and> ucast (path_data d) = raw \<longrightarrow>
            fst (handle_dev_get_mode_req K msg' d (snd (handle_dev_set_mode_req K env msg d s))) =
              mode_reply msg' x)
       \<and> (distinct [SCAN_DISABLED K, SCAN_PAGE K, SCAN_PAGE K OR SCAN_INQUIRY K]
            \<and> distinct [MODE_OFF K, MODE_CONNECTABLE K, MODE_DISCOVERABLE K, 0xff]
            \<and> ucast (path_data d) \<noteq> raw \<longrightarrow>
            fst (handle_dev_get_mode_req K msg' d (snd (handle_dev_set_mode_req K env msg d s))) \<noteq>
              mode_reply msg' x)
       \<and> count is_write_scan_enable (added s (snd (handle_dev_set_mode_req K env msg d s))) =
           (if ucast (path_data d) = raw then 0 else 1)
       \<and> count is_write_scan_enable
            (added s (snd (handle_dev_set_mode_req K env msg d
                             (snd (handle_dev_set_mode_req K env msg d s))))) =
           (if ucast (path_data d) = raw then 0 else 2)"
proof -
  note set = set_mode_success [OF x sw opn req]
  let ?s1 = "snd (handle_dev_set_mode_req K env msg d s)"
  have c1: "fst (handle_dev_set_mode_req K env msg d s) = Some (dbus_message_new_method_return msg)"
    by (simp add: set)
  have c2: "object_paths ?s1 = object_paths s"
    by (simp add: set)
  have c3: "default_dev ?s1 = default_dev s"
    by (simp add: set)
  have c4: "fst (handle_dev_get_mode_req K msg' d ?s1) = fst (handle_dev_get_mode_req K msg' d s)"
    by (simp add: handle_dev_get_mode_req_def Let_def)
  have same: "fst (handle_dev_get_mode_req K msg' d s) = mode_reply msg' x"
    if "distinct [SCAN_DISABLED K, SCAN_PAGE K, SCAN_PAGE K OR SCAN_INQUIRY K]"
      "ucast (path_data d) = raw"
    using that sw
    by (auto simp: handle_dev_get_mode_req_def set_mode_switch_def Let_def mode_reply_def
        dbus_message_new_method_return_def split: if_splits)
  have c5: "distinct [SCAN_DISABLED K, SCAN_PAGE K, SCAN_PAGE K OR SCAN_INQUIRY K]
            \<and> ucast (path_data d) = raw \<longrightarrow>
            fst (handle_dev_get_mode_req K msg' d ?s1) = mode_reply msg' x"
    using same c4 by simp
  have other: "fst (handle_dev_get_mode_req K msg' d s) \<noteq> mode_reply msg' x"
    if "distinct [SCAN_DISABLED K, SCAN_PAGE K, SCAN_PAGE K OR SCAN_INQUIRY K]"
      "distinct [MODE_OFF K, MODE_CONNECTABLE K, MODE_DISCOVERABLE K, 0xff]"
      "ucast (path_data d) \<noteq> raw"
    using that sw
    by (auto simp: handle_dev_get_mode_req_def set_mode_switch_def Let_def mode_reply_def
        dbus_message_new_method_return_def split: if_splits)
  have c5': "distinct [SCAN_DISABLED K, SCAN_PAGE K, SCAN_PAGE K OR SCAN_INQUIRY K]
            \<and> distinct [MODE_OFF K, MODE_CONNECTABLE K, MODE_DISCOVERABLE K, 0xff]
            \<and> ucast (path_data d) \<noteq> raw \<longrightarrow>
            fst (handle_dev_get_mode_req K msg' d ?s1) \<noteq> mode_reply msg' x"
    using other c4 by simp
  have c6: "count is_write_scan_enable (added s ?s1) = (if ucast (path_data d) = raw then 0 else 1)"
    by (simp add: set added_def write_scan_enable_def)
  have c7: "count is_write_scan_enable
              (added s (snd (handle_dev_set_mode_req K env msg d ?s1))) =
            (if ucast (path_data d) = raw then 0 else 2)"
    by (simp add: set [of s] set added_def write_scan_enable_def)
  show ?thesis
    by (intro conjI c1 c2 c3 c4 c5 c5' c6 c7)
qed

theorem set_mode_keeps_cache_witness:
  "call_args (sample_call ''DEV_SET_MODE'' [DBUS_TYPE_BYTE 1]) = DBUS_TYPE_BYTE 1 # []
   \<and> set_mode_switch sample_macros 1 = Some 2
   \<and> hci_open_dev stub_env (uint (dev_id (sample_data 0))) = Inr 3
   \<and> (\<forall>m. \<exists>rp. hci_send_req stub_env 3 (write_scan_enable m) 100 = Inr rp \<and> rp_status rp = 0)
   \<and> fst (handle_dev_set_mode_req sample_macros stub_env
             (sample_call ''DEV_SET_MODE'' [DBUS_TYPE_BYTE 1]) (sample_data 0) registered_state) =
       Some (Method_return 7 [])
   \<and> distinct [SCAN_DISABLED sample_macros, SCAN_PAGE sample_macros,
                 SCAN_PAGE sample_macros OR SCAN_INQUIRY sample_macros]
   \<and> distinct [MODE_OFF sample_macros, MODE_CONNECTABLE sample_macros,
                 MODE_DISCOVERABLE sample_macros, 0xff]
   \<and> (ucast (path_data (sample_data 0)) :: 8 word) \<noteq> 2
   \<and> fst (handle_dev_get_mode_req sample_macros (sample_call ''DEV_GET_MODE'' []) (sample_data 0)
            (snd (handle_dev_set_mode_req sample_macros stub_env
                    (sample_call ''DEV_SET_MODE'' [DBUS_TYPE_BYTE 1]) (sample_data 0)
                    registered_state))) \<noteq>
       mode_reply (sample_call ''DEV_GET_MODE'' []) 1
   \<and> count is_write_scan_enable
        (added registered_state
           (snd (handle_dev_set_mode_req sample_macros stub_env
                   (sample_call ''DEV_SET_MODE'' [DBUS_TYPE_BYTE 1]) (sample_data 0)
                   registered_state))) = 1"
  using set_mode_keeps_cache [of "sample_call ''DEV_SET_MODE'' [DBUS_TYPE_BYTE 1]" 1 "[]"
      sample_macros 2 stub_env "sample_data 0" 3 registered_state
      "sample_call ''DEV_GET_MODE'' []"]
  by (simp add: set_mode_switch_def dbus_message_new_method_return_def mode_reply_def
      handle_dev_get_mode_req_def Let_def)

text \<open>
  The claim as first stated fails on a controller whose cached mode is "disabled": after
  SetMode(connectable) the path data is unchanged, GetMode still answers "off", and a
  second SetMode(connectable) sends the write a second time.
\<close>

theorem set_mode_get_mode_counterexample:
  "object_paths registered_state ''/org/bluez/Device/hci0'' = Some (sample_data 0)
   \<and> set_mode_switch sample_macros 1 = Some 2
   \<and> fst (handle_dev_set_mode_req sample_macros stub_env
             (sample_call ''DEV_SET_MODE'' [DBUS_TYPE_BYTE 1]) (sample_data 0) registered_state) =
       Some (Method_return 7 [])
   \<and> object_paths
        (snd (handle_dev_set_mode_req sample_macros stub_env
                (sample_call ''DEV_SET_MODE'' [DBUS_TYPE_BYTE 1]) (sample_data 0) registered_state))
        ''/org/bluez/Device/hci0'' = Some (sample_data 0)
   \<and> fst (handle_dev_get_mode_req sample_macros (sample_call ''DEV_GET_MODE'' []) (sample_data 0)
            (snd (handle_dev_set_mode_req sample_macros stub_env
                    (sample_call ''DEV_SET_MODE'' [DBUS_TYPE_BYTE 1]) (sample_data 0)
                    registered_state))) = Some (Method_return 7 [DBUS_TYPE_BYTE 0])
   \<and> count is_write_scan_enable
        (added registered_state
           (snd (handle_dev_set_mode_req sample_macros stub_env
                   (sample_call ''DEV_SET_MODE'' [DBUS_TYPE_BYTE 1]) (sample_data 0)
                   (snd (handle_dev_set_mode_req sample_macros stub_env
                           (sample_call ''DEV_SET_MODE'' [DBUS_TYPE_BYTE 1]) (sample_data 0)
                           registered_state))))) = 2"
  by (simp add: handle_dev_set_mode_req_def handle_dev_get_mode_req_def get_byte_arg_def
      set_mode_switch_def Let_def dbus_message_new_method_return_def added_def
      write_scan_enable_def sample_data_def)

subsection \<open>PIN requests\<close>

lemma sample_pin_simps [simp]:
  "pin_request_prepared sample_macros env sample_state = dbus_message_new env"
  "pin_request_goes_out sample_macros stub_env ci sample_state"
  "pin_request_answered sample_macros stub_env ci sample_state"
  "is_pin_reply_message (Method_return n (DBUS_TYPE_STRING pin # rest))"
  "pin_of (Method_return n (DBUS_TYPE_STRING pin # rest)) = pin"
  by (simp_all add: pin_request_goes_out_def pin_request_prepared_def is_pin_reply_message_def
      pin_request_answered_def pin_of_def)

text \<open>
  Claim C4. With memory for every allocation and a PIN of at most 16 bytes, an
  authentication event issues exactly one of the two commands: the PIN-code-reply when
  the call to the agent went out and its reply carries a string, the negative reply in
  every other outcome, as the claim says (\<open>pin_event_outcomes\<close> above). The code
  breaks the claim on a reply that the agent is free to send: the agent is any client of
  the bus, and a string of any length is a well-formed reply. When it answers with a PIN
  of 17 characters, \<open>reply_handler_function\<close> copies 17 bytes into the 16 bytes of
  \<open>pr.pin_code\<close> before it issues a command, and what the code does from there on is
  undefined, where the claim demands one PIN-code-reply. A second slip breaks the claim
  in the same event: when \<open>malloc\<close> has no memory for the request,
  \<open>hcid_dbus_request_pin\<close> writes through NULL before it has sent anything, where
  \<open>register_dbus_path\<close> tests its own \<open>malloc\<close>. A PIN of 16 characters is
  answered with the PIN-code-reply.
\<close>

theorem pin_reply_overflow:
  "pin_request_answered sample_macros stub_env sample_conn sample_state
   \<and> is_pin_reply_message (Method_return 0 [DBUS_TYPE_STRING long_pin])
   \<and> length long_pin = 17
   \<and> pin_event sample_macros stub_env 0 sample_conn
         (Method_return 0 [DBUS_TYPE_STRING long_pin]) sample_state = Inl BUFFER_OVERFLOW
   \<and> pin_event sample_macros no_request_memory_env 0 sample_conn
         (Method_return 0 [DBUS_TYPE_STRING ''1234'']) sample_state = Inl NULL_POINTER_WRITE
   \<and> length (butlast long_pin) = 16
   \<and> (\<exists>s'. pin_event sample_macros stub_env 0 sample_conn
               (Method_return 0 [DBUS_TYPE_STRING (butlast long_pin)]) sample_state = Inr s'
           \<and> trace s' =
               [Dbus_connection_send_with_reply (pin_request_message sample_macros sample_conn)
                  TIMEOUT,
                Dbus_connection_flush,
                Hci_send_cmd 0 OGF_LINK_CTL OCF_PIN_CODE_REPLY
                  (Pin_code_reply_cp [0, 0, 0, 0, 0, 2] 16 (map of_char (butlast long_pin)))])"
  by (simp add: pin_event_def hcid_dbus_request_pin_def reply_handler_function_def Let_def
      long_pin_def PIN_CODE_SIZE_def sample_conn_def)


subsection \<open>Remote names\<close>

text \<open>
  Claim C5, amended. Let the kernel give the address of the controller (without it the
  request fails with ENODEV before the cache is looked at). If the name cache holds a
  name for the controller and the peer, the function replies success, hands exactly one
  signal to the bus, the RemoteName signal on the path of the controller with the peer
  address as given and the cached name, and makes no transport call. If the cache has no
  entry, the function opens the controller: if that fails, no remote-name request is
  issued and the reply is the system error of the errno; if it succeeds, exactly one
  remote-name request is issued, and a failure of that request is replied as the system
  error of its errno (a system error always has a reply when the class bit is not 0).
\<close>

theorem remote_name_request:
  assumes info: "hci_devinfo env (uint (dev_id d)) = Inr local"
  shows
    "(cached_name K env local (str2ba env (get_string_arg env msg)) = Some nm \<longrightarrow>
        fst (handle_dev_remote_name_req K env msg d s) = Some (dbus_message_new_method_return msg)
        \<and> filter is_signal (added s (snd (handle_dev_remote_name_req K env msg d s))) =
            [Dbus_connection_send
               (remote_name_signal K (uint (dev_id d)) (get_string_arg env msg) nm)]
        \<and> count is_transport_call (added s (snd (handle_dev_remote_name_req K env msg d s))) = 0)
     \<and> (cached_name K env local (str2ba env (get_string_arg env msg)) = None \<longrightarrow>
        (\<forall>e. hci_open_dev env (uint (dev_id d)) = Inl e \<longrightarrow>
           count is_remote_name_req (added s (snd (handle_dev_remote_name_req K env msg d s))) = 0
           \<and> (BLUEZ_ESYSTEM_OFFSET K \<noteq> 0 \<longrightarrow>
                fst (handle_dev_remote_name_req K env msg d s) =
                  Some (system_error_reply K env msg e)))
        \<and> (\<forall>dd. hci_open_dev env (uint (dev_id d)) = Inr dd \<longrightarrow>
           count is_remote_name_req (added s (snd (handle_dev_remote_name_req K env msg d s))) = 1
           \<and> (\<forall>e. hci_send_req env dd
                      (remote_name_req (str2ba env (get_string_arg env msg))) 100 = Inl e
                    \<and> BLUEZ_ESYSTEM_OFFSET K \<noteq> 0 \<longrightarrow>
                  fst (handle_dev_remote_name_req K env msg d s) =
                    Some (system_error_reply K env msg e))))"
proof -
  let ?peer = "str2ba env (get_string_arg env msg)"
  let ?H = "handle_dev_remote_name_req K env msg d s"
  have hit: "fst ?H = Some (dbus_message_new_method_return msg)
        \<and> filter is_signal (added s (snd ?H)) =
            [Dbus_connection_send
               (remote_name_signal K (uint (dev_id d)) (get_string_arg env msg) nm)]
        \<and> count is_transport_call (added s (snd ?H)) = 0"
    if "cached_name K env local ?peer = Some nm"
    using that info
    by (simp add: handle_dev_remote_name_req_def get_device_name_cached Let_def added_def
        remote_name_signal_def dbus_message_new_signal_def)
  have miss_closed: "count is_remote_name_req (added s (snd ?H)) = 0
           \<and> (BLUEZ_ESYSTEM_OFFSET K \<noteq> 0 \<longrightarrow> fst ?H = Some (system_error_reply K env msg e))"
    if "cached_name K env local ?peer = None" "hci_open_dev env (uint (dev_id d)) = Inl e" for e
    using that info system_failure_msg [of K env msg e]
    by (simp add: handle_dev_remote_name_req_def get_device_name_cached Let_def added_def)
  have miss_open: "count is_remote_name_req (added s (snd ?H)) = 1
           \<and> (\<forall>e. hci_send_req env dd (remote_name_req ?peer) 100 = Inl e
                    \<and> BLUEZ_ESYSTEM_OFFSET K \<noteq> 0 \<longrightarrow>
                  fst ?H = Some (system_error_reply K env msg e))"
    if "cached_name K env local ?peer = None" "hci_open_dev env (uint (dev_id d)) = Inr dd" for dd
    using that info system_failure_msg [of K env msg]
    by (auto simp: handle_dev_remote_name_req_def get_device_name_cached Let_def added_def
        remote_name_req_def split: sum.splits)
  from hit miss_closed miss_open show ?thesis by blast
qed

lemma alice_env_simps [simp]:
  "textfile_get alice_env f k = Some ''Alice''"
  "hci_devinfo alice_env d = Inr [0, 0, 0, 0, 0, 1]"
  "str2ba alice_env a = [0, 0, 0, 0, 0, 2]"
  "ba2str alice_env b = ''00:00:00:00:00:00''"
  "dbus_connection_send alice_env m"
  by (simp_all add: alice_env_def)

theorem remote_name_request_witness:
  "hci_devinfo alice_env (uint (dev_id (sample_data 0))) = Inr [0, 0, 0, 0, 0, 1]
   \<and> cached_name sample_macros alice_env [0, 0, 0, 0, 0, 1]
        (str2ba alice_env
           (get_string_arg alice_env
              (sample_call ''DEV_REMOTE_NAME'' [DBUS_TYPE_STRING ''00:00:00:00:00:02'']))) =
       Some ''Alice''
   \<and> fst (handle_dev_remote_name_req sample_macros alice_env
             (sample_call ''DEV_REMOTE_NAME'' [DBUS_TYPE_STRING ''00:00:00:00:00:02''])
             (sample_data 0) sample_state) = Some (Method_return 7 [])
   \<and> filter is_signal
        (added sample_state
           (snd (handle_dev_remote_name_req sample_macros alice_env
                   (sample_call ''DEV_REMOTE_NAME'' [DBUS_TYPE_STRING ''00:00:00:00:00:02''])
                   (sample_data 0) sample_state))) =
       [Dbus_connection_send
          (Signal ''/org/bluez/Device/hci0'' ''org.bluez.Device'' ''RemoteName''
             [DBUS_TYPE_STRING ''00:00:00:00:00:02'', DBUS_TYPE_STRING ''Alice''])]
   \<and> hci_devinfo stub_env (uint (dev_id (sample_data 0))) = Inr [0, 0, 0, 0, 0, 1]
   \<and> cached_name sample_macros stub_env [0, 0, 0, 0, 0, 1]
        (str2ba stub_env
           (get_string_arg stub_env
              (sample_call ''DEV_REMOTE_NAME'' [DBUS_TYPE_STRING ''00:00:00:00:00:02'']))) = None
   \<and> hci_open_dev stub_env (uint (dev_id (sample_data 0))) = Inr 3
   \<and> count is_remote_name_req
        (added sample_state
           (snd (handle_dev_remote_name_req sample_macros stub_env
                   (sample_call ''DEV_REMOTE_NAME'' [DBUS_TYPE_STRING ''00:00:00:00:00:02''])
                   (sample_data 0) sample_state))) = 1"
  using remote_name_request [of alice_env "sample_data 0" "[0, 0, 0, 0, 0, 1]" sample_macros
      "sample_call ''DEV_REMOTE_NAME'' [DBUS_TYPE_STRING ''00:00:00:00:00:02'']" "''Alice''"
      sample_state]
    remote_name_request [of stub_env "sample_data 0" "[0, 0, 0, 0, 0, 1]" sample_macros
      "sample_call ''DEV_REMOTE_NAME'' [DBUS_TYPE_STRING ''00:00:00:00:00:02'']" "''Alice''"
      sample_state]
  by (simp add: cached_name_def get_string_arg_def remote_name_signal_def
      dbus_message_new_method_return_def)

text \<open>
  The claim as first stated ("exactly one request whenever the cache has no entry")
  fails where the controller does not open: the reply is the system error and no request
  has been issued.
\<close>

theorem remote_name_no_request_counterexample:
  "hci_devinfo no_device_env (uint (dev_id (sample_data 0))) = Inr [0, 0, 0, 0, 0, 1]
   \<and> cached_name sample_macros no_device_env [0, 0, 0, 0, 0, 1]
        (str2ba no_device_env
           (get_string_arg no_device_env
              (sample_call ''DEV_REMOTE_NAME'' [DBUS_TYPE_STRING ''00:00:00:00:00:02'']))) = None
   \<and> count is_remote_name_req
        (added sample_state
           (snd (handle_dev_remote_name_req sample_macros no_device_env
                   (sample_call ''DEV_REMOTE_NAME'' [DBUS_TYPE_STRING ''00:00:00:00:00:02''])
                   (sample_data 0) sample_state))) = 0
   \<and> fst (handle_dev_remote_name_req sample_macros no_device_env
             (sample_call ''DEV_REMOTE_NAME'' [DBUS_TYPE_STRING ''00:00:00:00:00:02''])
             (sample_data 0) sample_state) =
       Some (Error_message 7 ''org.bluez.Error''
               [DBUS_TYPE_STRING ''system error'', DBUS_TYPE_UINT32 0x20013])"
  by (simp add: handle_dev_remote_name_req_def get_device_name_def cached_name_def
      get_string_arg_def Let_def added_def bluez_new_failure_msg_def
      bluez_dbus_error_to_str_def dbus_message_new_error_def)

end
